theory Spec2Isabelle
  imports Main "HOL-Library.Signed_Division"
begin

section \<open>yt-music-downloader: the pipeline controller of main.go\<close>

text \<open>
  A shallow embedding of \<^verbatim>\<open>src/main.go\<close>: the Bubble Tea model and its
  \<^verbatim>\<open>Update\<close> function, the tag editor, the asset fetcher \<^verbatim>\<open>downloadCmd\<close>,
  the lyrics lookup \<^verbatim>\<open>getLyrics\<close> and the filename sanitizer.

  Go strings are byte strings, modelled as \<^typ>\<open>string\<close>. The user-interface texts of
  the source are Japanese; they are written here as ASCII glosses, since only their
  identity and their emptiness are ever observed.
\<close>

subsection \<open>Data model\<close>

datatype state =
    stateCheckingDeps | stateInput | stateFetchingURLInfo | stateSearching
  | stateSelectYT | stateSelectMB | stateSelectTrack | stateEditTags
  | stateDownloading | stateShowSuccess | stateConfirmSkipMB | stateError

text \<open>Go's \<^verbatim>\<open>error\<close>: \<open>None\<close> is \<^verbatim>\<open>nil\<close>, \<open>Some s\<close> an error whose text is \<open>s\<close>.\<close>

type_synonym err = "string option"

record MBArtist =
  Name :: string
  JoinPhrase :: string

record MBReleaseGroup =
  rg_ID :: string
  rg_PrimaryType :: string

record MBTrack =
  t_ID :: string
  t_Title :: string
  t_Number :: string
  t_Length :: int
  t_Genres :: "string list"

record MBMedia =
  Format :: string
  Tracks :: "MBTrack list"

record MBRelease =
  r_ID :: string
  r_Title :: string
  r_ArtistCredit :: "MBArtist list"
  r_Date :: string
  r_Media :: "MBMedia list"
  r_ReleaseGroup :: MBReleaseGroup

text \<open>
  The field \<^verbatim>\<open>meta interface{}\<close> of an item. The program stores only \<^verbatim>\<open>nil\<close>, an
  \<^verbatim>\<open>MBRelease\<close> or an \<^verbatim>\<open>MBTrack\<close> in it, so the dynamic type is one of three.
\<close>

datatype meta = MetaNil | MetaRelease MBRelease | MetaTrack MBTrack

record item =
  title :: string
  desc :: string
  itemID :: string
  url :: string
  artist :: string
  itemType :: string
  meta :: meta

definition zeroItem :: item where
  "zeroItem = \<lparr>title = [], desc = [], itemID = [], url = [], artist = [], itemType = [],
     meta = MetaNil\<rparr>"

record finalTags =
  Title :: string
  Artist :: string
  Album :: string
  Date :: string
  TrackNumber :: string
  AlbumArtist :: string
  Lyrics :: string
  DurationSec :: int

record ytDlpVideoInfo =
  v_ID :: string
  v_Title :: string
  v_Uploader :: string
  v_Channel :: string

text \<open>A panic of the Go runtime ends the process; it is the outcome \<open>Panicked\<close>.\<close>

datatype 'a outcome = Panicked | Returned 'a

subsection \<open>The Bubble Tea components the model holds\<close>

text \<open>
  \<^verbatim>\<open>textinput.Model\<close>, \<^verbatim>\<open>list.Model\<close> and \<^verbatim>\<open>spinner.Model\<close> belong to the
  bubbles library. They are modelled by the fields the program sets and reads. What a
  component's own \<^verbatim>\<open>Update\<close> does with a message is not in this repository: it is
  the parameter \<open>lib\<close> below.
\<close>

record textinput =
  tiValue :: string
  tiFocused :: bool
  tiWidth :: int
  tiCharLimit :: int
  tiPlaceholder :: string

definition textinput_New :: textinput where
  "textinput_New = \<lparr>tiValue = [], tiFocused = False, tiWidth = 0, tiCharLimit = 0,
     tiPlaceholder = []\<rparr>"

record list_model =
  listTitle :: string
  listItems :: "item list"
  listIndex :: nat
  listWidth :: int
  listHeight :: int

definition newList :: "string \<Rightarrow> item list \<Rightarrow> list_model" where
  "newList t its = \<lparr>listTitle = t, listItems = its, listIndex = 0, listWidth = 0,
     listHeight = 0\<rparr>"

definition SetSize :: "int \<Rightarrow> int \<Rightarrow> list_model \<Rightarrow> list_model" where
  "SetSize w h l = l\<lparr>listWidth := w, listHeight := h\<rparr>"

text \<open>
  \<^verbatim>\<open>SelectedItem()\<close> returns \<^verbatim>\<open>nil\<close> when the index is past the items, and the
  comma-ok assertion \<^verbatim>\<open>.(item)\<close> then yields \<^verbatim>\<open>ok = false\<close>.
\<close>

definition SelectedItem :: "list_model \<Rightarrow> item option" where
  "SelectedItem l =
     (if listIndex l < length (listItems l) then Some (listItems l ! listIndex l) else None)"

subsection \<open>Keys, messages and commands\<close>

datatype KeyType =
  KeyCtrlC | KeyEnter | KeyEsc | KeyUp | KeyDown | KeyRunes | KeySpecial string

record Key =
  keyType :: KeyType
  runes :: string
  alt :: bool

text \<open>
  \<^verbatim>\<open>Key.String()\<close> of Bubble Tea: the runes of a \<^verbatim>\<open>KeyRunes\<close> key, the name of any
  other key, with \<^verbatim>\<open>alt+\<close> in front when Alt is held. \<open>KeySpecial n\<close> stands for every
  key type the program never compares with, \<open>n\<close> being its name.
\<close>

definition keyString :: "Key \<Rightarrow> string" where
  "keyString k =
     (if alt k then ''alt+'' else []) @
     (case keyType k of
        KeyRunes \<Rightarrow> runes k
      | KeyCtrlC \<Rightarrow> ''ctrl+c''
      | KeyEnter \<Rightarrow> ''enter''
      | KeyEsc \<Rightarrow> ''esc''
      | KeyUp \<Rightarrow> ''up''
      | KeyDown \<Rightarrow> ''down''
      | KeySpecial n \<Rightarrow> n)"

text \<open>
  \<^verbatim>\<open>strings.ToLower\<close> on the ASCII letters. The program compares the result only with
  \<^verbatim>\<open>y\<close>, \<^verbatim>\<open>enter\<close>, \<^verbatim>\<open>n\<close> and \<^verbatim>\<open>esc\<close>.
\<close>

definition lowerByte :: "char \<Rightarrow> char" where
  "lowerByte c =
     (let n = (of_char c :: nat) in if 65 \<le> n \<and> n \<le> 90 then char_of (n + 32) else c)"

definition ToLower :: "string \<Rightarrow> string" where
  "ToLower s = map lowerByte s"

datatype msg =
    WindowSizeMsg int int
  | KeyMsg Key
  | ytDlpCheckResultMsg string err
  | ffmpegCheckResultMsg string err
  | urlInfoFetchedMsg item err
  | searchFinishedMsg "item list" "item list" err
  | mbSearchFinishedMsg "item list" err
  | tracklistFinishedMsg "item list" err
  | downloadFinishedMsg string err
  | resetMsg
  | SpinnerTickMsg
  | OtherMsg

text \<open>
  A \<^verbatim>\<open>tea.Cmd\<close> is a function the runtime runs in the background. The commands of this
  program are named by constructors that carry the arguments of the call; \<open>LibCmd\<close> is
  whatever command a library component returns.
\<close>

datatype cmd =
    Quit
  | CheckYtDlpCmd
  | CheckFfmpegCmd
  | GetURLInfoCmd string string
  | SearchCmd string string
  | SearchMusicBrainzCmd string
  | GetTracklistCmd string
  | DownloadCmd string string item item finalTags
  | SimpleDownloadCmd string string item
  | ResetCmd
  | SpinnerTick
  | Blink
  | FocusCmd
  | LibCmd

record lib =
  listMove :: "msg \<Rightarrow> list_model \<Rightarrow> nat"
  inputEdit :: "msg \<Rightarrow> textinput \<Rightarrow> string"
  inputSet :: "string \<Rightarrow> string"
  spinnerStep :: "nat \<Rightarrow> nat"

text \<open>
  \<open>listMove\<close> is the index a list has after its \<^verbatim>\<open>Update\<close>, \<open>inputEdit\<close> the value a
  text input has after its \<^verbatim>\<open>Update\<close>, and \<open>inputSet\<close> the value \<^verbatim>\<open>SetValue\<close>
  stores, \<open>spinnerStep\<close> the next frame of the spinner. A list's \<^verbatim>\<open>Update\<close> keeps its items and a text input's keeps its focus.
\<close>

definition list_Update :: "lib \<Rightarrow> msg \<Rightarrow> list_model \<Rightarrow> list_model" where
  "list_Update L e l = l\<lparr>listIndex := listMove L e l\<rparr>"

definition textinput_Update :: "lib \<Rightarrow> msg \<Rightarrow> textinput \<Rightarrow> textinput" where
  "textinput_Update L e t = t\<lparr>tiValue := inputEdit L e t\<rparr>"

record model =
  state :: state
  input :: textinput
  tagInputs :: "textinput list"
  focusIndex :: int
  spinner :: nat
  ytResults :: list_model
  mbResults :: list_model
  tracklist :: list_model
  selectedYT :: item
  selectedMB :: item
  selectedTrack :: item
  statusMsg :: string
  error :: err
  ytDlpPath :: string
  ffmpegPath :: string
  width :: int
  height :: int
  lastFile :: string

definition newModel :: model where
  "newModel =
     \<lparr>state = stateCheckingDeps,
      input = textinput_New\<lparr>tiPlaceholder := ''Enter artist and title, or a YouTube URL...'',
                tiFocused := True, tiWidth := 60\<rparr>,
      tagInputs = [],
      focusIndex = 0,
      spinner = 0,
      ytResults = newList [] [],
      mbResults = newList [] [],
      tracklist = newList [] [],
      selectedYT = zeroItem,
      selectedMB = zeroItem,
      selectedTrack = zeroItem,
      statusMsg = ''Checking dependencies...'',
      error = None,
      ytDlpPath = [],
      ffmpegPath = [],
      width = 0,
      height = 0,
      lastFile = []\<rparr>"

subsection \<open>The tag editor's inputs\<close>

text \<open>
  \<^verbatim>\<open>createTagInputs\<close>: the two single-value type assertions
  \<^verbatim>\<open>m.selectedMB.meta.(MBRelease)\<close> and \<^verbatim>\<open>m.selectedTrack.meta.(MBTrack)\<close> panic when
  the dynamic type is another one.
\<close>

definition createTagInputs :: "lib \<Rightarrow> model \<Rightarrow> textinput list outcome" where
  "createTagInputs L m =
     (case meta (selectedMB m) of
        MetaRelease releaseInfo \<Rightarrow>
          (case meta (selectedTrack m) of
             MetaTrack trackInfo \<Rightarrow>
               Returned
                 (map (\<lambda>v. textinput_New\<lparr>tiValue := inputSet L v, tiWidth := 50,
                              tiCharLimit := 150\<rparr>)
                    [t_Title trackInfo, artist (selectedTrack m), r_Title releaseInfo,
                     r_Date releaseInfo, t_Number trackInfo])
           | _ \<Rightarrow> Panicked)
      | _ \<Rightarrow> Panicked)"

text \<open>\<^verbatim>\<open>m.tagInputs[i].Focus()\<close>, and the loop that focuses one input and blurs the rest.\<close>

definition focusAt :: "nat \<Rightarrow> textinput list \<Rightarrow> textinput list" where
  "focusAt i ts = ts[i := (ts ! i)\<lparr>tiFocused := True\<rparr>]"

definition focusOnly :: "int \<Rightarrow> textinput list \<Rightarrow> textinput list" where
  "focusOnly fi ts = map (\<lambda>(i, t). t\<lparr>tiFocused := (int i = fi)\<rparr>) (enumerate 0 ts)"

subsection \<open>Update: key messages, by state\<close>

definition keySelectYT :: "model \<Rightarrow> Key \<Rightarrow> (model \<times> cmd list) outcome" where
  "keySelectYT m k =
     (if keyType k = KeyEnter then
        (case SelectedItem (ytResults m) of
           Some i \<Rightarrow>
             Returned (m\<lparr>selectedYT := i, state := stateSearching,
                          statusMsg := ''Searching MusicBrainz for metadata...''\<rparr>,
                       [SpinnerTick, SearchMusicBrainzCmd (title i @ '' '' @ desc i)])
         | None \<Rightarrow> Returned (m, []))
      else if keyType k = KeyEsc then Returned (m\<lparr>state := stateInput\<rparr>, [])
      else Returned (m, []))"

definition keySelectMB :: "model \<Rightarrow> Key \<Rightarrow> (model \<times> cmd list) outcome" where
  "keySelectMB m k =
     (if keyType k = KeyEnter then
        (case SelectedItem (mbResults m) of
           Some i \<Rightarrow>
             Returned (m\<lparr>selectedMB := i, state := stateSelectTrack,
                          statusMsg := ''Fetching the track list...''\<rparr>,
                       [SpinnerTick, GetTracklistCmd (itemID i)])
         | None \<Rightarrow> Returned (m, []))
      else if keyString k = ''s'' then Returned (m\<lparr>state := stateConfirmSkipMB\<rparr>, [])
      else if keyType k = KeyEsc then Returned (m\<lparr>state := stateSelectYT\<rparr>, [])
      else Returned (m, []))"

definition keySelectTrack :: "lib \<Rightarrow> model \<Rightarrow> Key \<Rightarrow> (model \<times> cmd list) outcome" where
  "keySelectTrack L m k =
     (if keyType k = KeyEnter then
        (case SelectedItem (tracklist m) of
           Some i \<Rightarrow>
             (let m1 = m\<lparr>selectedTrack := i, state := stateEditTags, focusIndex := 0\<rparr> in
              case createTagInputs L m1 of
                Panicked \<Rightarrow> Panicked
              | Returned inputs \<Rightarrow> Returned (m1\<lparr>tagInputs := focusAt 0 inputs\<rparr>, [FocusCmd]))
         | None \<Rightarrow> Returned (m, []))
      else if keyType k = KeyEsc then Returned (m\<lparr>state := stateSelectMB\<rparr>, [])
      else Returned (m, []))"

text \<open>
  The tag editor. Confirming the last field asserts \<^verbatim>\<open>m.selectedTrack.meta.(MBTrack)\<close>
  and reads \<^verbatim>\<open>m.tagInputs[0]\<close> to \<^verbatim>\<open>m.tagInputs[4]\<close>; an index outside the slice
  panics, as does the assertion on another dynamic type. Go's \<^verbatim>\<open>/\<close> on \<^verbatim>\<open>int\<close>
  truncates towards zero: it is \<open>sdiv\<close>.
\<close>

definition keyEditTags :: "model \<Rightarrow> Key \<Rightarrow> (model \<times> cmd list) outcome" where
  "keyEditTags m k =
     (let n = int (length (tagInputs m)) in
      if keyType k = KeyEnter then
        (if focusIndex m = n - 1 then
           (case meta (selectedTrack m) of
              MetaTrack trackInfo \<Rightarrow>
                if n < 5 then Panicked
                else
                  (let tags = \<lparr>Title = tiValue (tagInputs m ! 0),
                                Artist = tiValue (tagInputs m ! 1),
                                Album = tiValue (tagInputs m ! 2),
                                Date = tiValue (tagInputs m ! 3),
                                TrackNumber = tiValue (tagInputs m ! 4),
                                AlbumArtist = tiValue (tagInputs m ! 1),
                                Lyrics = [],
                                DurationSec = t_Length trackInfo sdiv 1000\<rparr>
                   in Returned
                        (m\<lparr>state := stateDownloading,
                            statusMsg := ''Fetching audio, cover and lyrics...''\<rparr>,
                         [SpinnerTick,
                          DownloadCmd (ytDlpPath m) (ffmpegPath m) (selectedYT m) (selectedMB m)
                            tags]))
            | _ \<Rightarrow> Panicked)
         else
           (let fi = focusIndex m + 1 in
            if 0 \<le> fi \<and> fi < n then
              Returned (m\<lparr>focusIndex := fi, tagInputs := focusAt (nat fi) (tagInputs m)\<rparr>,
                        [FocusCmd])
            else Panicked))
      else if keyType k = KeyEsc then Returned (m\<lparr>state := stateSelectTrack\<rparr>, [])
      else
        (let f1 = (if keyString k = ''up'' then focusIndex m - 1
                   else if keyString k = ''down'' then focusIndex m + 1
                   else focusIndex m);
             f2 = (if f1 < 0 then n - 1 else if f1 \<ge> n then 0 else f1)
         in Returned (m\<lparr>focusIndex := f2, tagInputs := focusOnly f2 (tagInputs m)\<rparr>,
                      (if 0 \<le> f2 \<and> f2 < n then [FocusCmd] else []))))"

definition HasPrefix :: "string \<Rightarrow> string \<Rightarrow> bool" where
  "HasPrefix s p = (take (length p) s = p)"

definition keyInput :: "model \<Rightarrow> Key \<Rightarrow> (model \<times> cmd list) outcome" where
  "keyInput m k =
     (if keyType k = KeyEnter then
        (let query = tiValue (input m) in
         if HasPrefix query ''http'' then
           Returned (m\<lparr>state := stateFetchingURLInfo,
                        statusMsg := ''Fetching information from the URL...''\<rparr>,
                     [SpinnerTick, GetURLInfoCmd (ytDlpPath m) query])
         else
           Returned (m\<lparr>state := stateSearching,
                        statusMsg := ''Searching YouTube and MusicBrainz...''\<rparr>,
                     [SpinnerTick, SearchCmd (ytDlpPath m) query]))
      else Returned (m, []))"

definition keyConfirmSkipMB :: "model \<Rightarrow> Key \<Rightarrow> (model \<times> cmd list) outcome" where
  "keyConfirmSkipMB m k =
     (let s = ToLower (keyString k) in
      if s = ''y'' \<or> s = ''enter'' then
        Returned (m\<lparr>state := stateDownloading, statusMsg := ''Downloading without tags...''\<rparr>,
                  [SpinnerTick, SimpleDownloadCmd (ytDlpPath m) (ffmpegPath m) (selectedYT m)])
      else if s = ''n'' \<or> s = ''esc'' then Returned (m\<lparr>state := stateSelectYT\<rparr>, [])
      else Returned (m, []))"

definition handleKey :: "lib \<Rightarrow> model \<Rightarrow> Key \<Rightarrow> (model \<times> cmd list) outcome" where
  "handleKey L m k =
     (case state m of
        stateSelectYT \<Rightarrow> keySelectYT m k
      | stateSelectMB \<Rightarrow> keySelectMB m k
      | stateSelectTrack \<Rightarrow> keySelectTrack L m k
      | stateEditTags \<Rightarrow> keyEditTags m k
      | stateInput \<Rightarrow> keyInput m k
      | stateConfirmSkipMB \<Rightarrow> keyConfirmSkipMB m k
      | stateShowSuccess \<Rightarrow> Returned (m, [ResetCmd])
      | stateError \<Rightarrow> Returned (m, [ResetCmd])
      | _ \<Rightarrow> Returned (m, []))"

subsection \<open>Update: the other messages\<close>

text \<open>
  The \<^verbatim>\<open>resetMsg\<close> case: a new model that keeps the two tool paths and the terminal
  size, put into \<^verbatim>\<open>stateInput\<close> with an empty status.
\<close>

definition reset :: "model \<Rightarrow> model" where
  "reset m =
     newModel\<lparr>ytDlpPath := ytDlpPath m, ffmpegPath := ffmpegPath m, width := width m,
       height := height m, state := stateInput, statusMsg := []\<rparr>"

definition handleMsg :: "lib \<Rightarrow> model \<Rightarrow> msg \<Rightarrow> model \<times> cmd list" where
  "handleMsg L m e =
     (case e of
        WindowSizeMsg w h \<Rightarrow>
          (m\<lparr>width := w, height := h,
              ytResults := SetSize (w - 4) (h - 8) (ytResults m),
              mbResults := SetSize (w - 4) (h - 8) (mbResults m),
              tracklist := SetSize (w - 4) (h - 8) (tracklist m)\<rparr>, [])
      | KeyMsg k \<Rightarrow> (m, [])
      | ytDlpCheckResultMsg path er \<Rightarrow>
          (if er \<noteq> None then (m\<lparr>state := stateError, error := er\<rparr>, [])
           else (m\<lparr>ytDlpPath := path\<rparr>, [CheckFfmpegCmd]))
      | ffmpegCheckResultMsg path er \<Rightarrow>
          (if er \<noteq> None then
             (m\<lparr>state := stateError,
                 error := Some ''ffmpeg was not found; it is required for conversion.''\<rparr>, [])
           else (m\<lparr>ffmpegPath := path, state := stateInput\<rparr>, []))
      | urlInfoFetchedMsg ytItem er \<Rightarrow>
          (if er \<noteq> None then (m\<lparr>state := stateError, error := er\<rparr>, [])
           else
             (m\<lparr>selectedYT := ytItem, state := stateSearching,
                 statusMsg := ''Searching MusicBrainz for metadata...''\<rparr>,
              [SpinnerTick, SearchMusicBrainzCmd (title ytItem @ '' '' @ desc ytItem)]))
      | searchFinishedMsg ytItems mbItems er \<Rightarrow>
          (if er \<noteq> None then (m\<lparr>state := stateError, error := er\<rparr>, [])
           else
             (m\<lparr>state := stateSelectYT,
                 ytResults := SetSize (width m - 4) (height m - 8)
                   (newList ''Which source do you want to download?'' ytItems),
                 mbResults := newList ''Which release should the tags come from?'' mbItems\<rparr>,
              []))
      | mbSearchFinishedMsg items er \<Rightarrow>
          (if er \<noteq> None then (m\<lparr>state := stateError, error := er\<rparr>, [])
           else if length items = 0 then (m\<lparr>state := stateConfirmSkipMB\<rparr>, [])
           else
             (m\<lparr>state := stateSelectMB,
                 mbResults := SetSize (width m - 4) (height m - 8)
                   (newList ''Which release should the tags come from?'' items)\<rparr>, []))
      | tracklistFinishedMsg items er \<Rightarrow>
          (if er \<noteq> None then (m\<lparr>state := stateError, error := er\<rparr>, [])
           else if length items = 0 then
             (m\<lparr>state := stateError,
                 error := Some ''The selected release has no track information.''\<rparr>, [])
           else
             (m\<lparr>state := stateSelectTrack,
                 tracklist := SetSize (width m - 4) (height m - 8)
                   (newList (''Choose a track from <'' @ title (selectedMB m) @ ''>'') items)\<rparr>,
              []))
      | downloadFinishedMsg filename er \<Rightarrow>
          (if er \<noteq> None then (m\<lparr>state := stateError, error := er\<rparr>, [])
           else (m\<lparr>state := stateShowSuccess, lastFile := filename\<rparr>, []))
      | resetMsg \<Rightarrow> (reset m, [Blink])
      | SpinnerTickMsg \<Rightarrow> (m\<lparr>spinner := spinnerStep L (spinner m)\<rparr>, [SpinnerTick])
      | OtherMsg \<Rightarrow> (m, []))"

subsection \<open>Update: the component of the current state, and the whole function\<close>

text \<open>
  The second \<^verbatim>\<open>switch m.state\<close> hands the message to the component of the state the
  first switch left. In \<^verbatim>\<open>stateEditTags\<close> the guard is only
  \<^verbatim>\<open>m.focusIndex < len(m.tagInputs)\<close>, so a negative index panics.
\<close>

definition subUpdate :: "lib \<Rightarrow> msg \<Rightarrow> model \<times> cmd list \<Rightarrow> (model \<times> cmd list) outcome" where
  "subUpdate L e mc =
     (case mc of (m, cmds) \<Rightarrow>
        (case state m of
           stateInput \<Rightarrow>
             Returned (m\<lparr>input := textinput_Update L e (input m)\<rparr>, cmds @ [LibCmd])
         | stateSelectYT \<Rightarrow>
             Returned (m\<lparr>ytResults := list_Update L e (ytResults m)\<rparr>, cmds @ [LibCmd])
         | stateSelectMB \<Rightarrow>
             Returned (m\<lparr>mbResults := list_Update L e (mbResults m)\<rparr>, cmds @ [LibCmd])
         | stateSelectTrack \<Rightarrow>
             Returned (m\<lparr>tracklist := list_Update L e (tracklist m)\<rparr>, cmds @ [LibCmd])
         | stateEditTags \<Rightarrow>
             (if focusIndex m < int (length (tagInputs m)) then
                (if focusIndex m < 0 then Panicked
                 else
                   Returned
                     (m\<lparr>tagInputs := (tagInputs m)
                          [nat (focusIndex m) :=
                             textinput_Update L e (tagInputs m ! nat (focusIndex m))]\<rparr>,
                      cmds @ [LibCmd]))
              else Returned (m, cmds))
         | _ \<Rightarrow> Returned (m, cmds)))"

text \<open>
  \<^verbatim>\<open>Update\<close>. Ctrl+C returns at once with \<^verbatim>\<open>tea.Quit\<close>; every other message runs
  the first switch and then the second. The result's commands are the batch
  \<^verbatim>\<open>tea.Batch(cmds...)\<close>.
\<close>

definition Update :: "lib \<Rightarrow> model \<Rightarrow> msg \<Rightarrow> (model \<times> cmd list) outcome" where
  "Update L m e =
     (case e of
        KeyMsg k \<Rightarrow>
          (if keyType k = KeyCtrlC then Returned (m, [Quit])
           else
             (case handleKey L m k of
                Panicked \<Rightarrow> Panicked
              | Returned mc \<Rightarrow> subUpdate L e mc))
      | _ \<Rightarrow> subUpdate L e (handleMsg L m e))"

subsection \<open>The filename sanitizer\<close>

text \<open>
  \<^verbatim>\<open>strings.NewReplacer("/", "-", "\\", "-", ":", "-", "*", "-", "?", "-", "\"", "'",
  "<", "-", ">", "-", "|", "-")\<close>. Every old and new string is a single byte, so the
  replacer is a byte map in which the first pair of a byte wins. The backslash is
  \<open>0x5C\<close>, the double quote \<open>0x22\<close> and the apostrophe \<open>0x27\<close>.
\<close>

definition replacerPairs :: "(char \<times> char) list" where
  "replacerPairs =
     [(CHR ''/'', CHR ''-''), (CHR 0x5C, CHR ''-''), (CHR '':'', CHR ''-''),
      (CHR ''*'', CHR ''-''), (CHR ''?'', CHR ''-''), (CHR 0x22, CHR 0x27),
      (CHR ''<'', CHR ''-''), (CHR ''>'', CHR ''-''), (CHR ''|'', CHR ''-'')]"

definition replaceByte :: "char \<Rightarrow> char" where
  "replaceByte c = (case map_of replacerPairs c of Some d \<Rightarrow> d | None \<Rightarrow> c)"

definition sanitizeFilename :: "string \<Rightarrow> string" where
  "sanitizeFilename name = map replaceByte name"

text \<open>The nine path-unsafe characters the specification lists.\<close>

definition unsafeChars :: "char set" where
  "unsafeChars =
     {CHR ''/'', CHR 0x5C, CHR '':'', CHR ''*'', CHR ''?'', CHR 0x22,
      CHR ''<'', CHR ''>'', CHR ''|''}"

subsection \<open>The commands: what each sends back\<close>

text \<open>
  A command's body runs outside the event loop and ends by returning one message. Each
  body is a function of what the outside world answered: the output of a process, the
  decoded body of an HTTP response, or an error.
\<close>

definition joinArtistCredits :: "MBArtist list \<Rightarrow> string" where
  "joinArtistCredits credits = concat (map (\<lambda>credit. Name credit @ JoinPhrase credit) credits)"

definition checkYtDlpCmd :: "string option \<Rightarrow> bool \<Rightarrow> bool \<Rightarrow> msg" where
  "checkYtDlpCmd lookPath windows localExists =
     (case lookPath of
        Some path \<Rightarrow> ytDlpCheckResultMsg path None
      | None \<Rightarrow>
          (let localPath = ''yt-dlp'' @ (if windows then ''.exe'' else []) in
           if localExists then ytDlpCheckResultMsg (''./'' @ localPath) None
           else ytDlpCheckResultMsg [] (Some ''yt-dlp was not found.'')))"

definition checkFfmpegCmd :: "string + string \<Rightarrow> msg" where
  "checkFfmpegCmd lookPath =
     (case lookPath of
        Inl e \<Rightarrow> ffmpegCheckResultMsg [] (Some e)
      | Inr path \<Rightarrow> ffmpegCheckResultMsg path None)"

datatype urlInfo = UrlTimeout | UrlFailed string | UrlBadJson string | UrlInfo ytDlpVideoInfo

definition getURLInfoCmd :: "string \<Rightarrow> urlInfo \<Rightarrow> msg" where
  "getURLInfoCmd query r =
     (case r of
        UrlTimeout \<Rightarrow> urlInfoFetchedMsg zeroItem (Some ''Fetching the URL information timed out (30s)'')
      | UrlFailed out \<Rightarrow>
          urlInfoFetchedMsg zeroItem (Some (''Fetching the URL information failed:'' @ [CHR 0x0A] @ out))
      | UrlBadJson e \<Rightarrow>
          urlInfoFetchedMsg zeroItem (Some (''Parsing the URL information failed:'' @ [CHR 0x0A] @ e))
      | UrlInfo info \<Rightarrow>
          urlInfoFetchedMsg
            (zeroItem\<lparr>title := v_Title info,
               desc := (if v_Uploader info = [] then v_Channel info else v_Uploader info),
               itemID := v_ID info, url := query\<rparr>)
            None)"

text \<open>
  \<^verbatim>\<open>doMusicBrainzSearch\<close>: \<open>Inl e\<close> is a failed request or a body that does not decode,
  \<open>Inr rs\<close> the decoded releases. What the decoder can put into the release group of a
  release is \<open>decodeReleaseGroup\<close> below: nothing.
\<close>

definition releaseItem :: "MBRelease \<Rightarrow> item" where
  "releaseItem r =
     zeroItem\<lparr>title := r_Title r,
       desc := joinArtistCredits (r_ArtistCredit r) @ '' ('' @ r_Date r @ '') ['' @
               rg_PrimaryType (r_ReleaseGroup r) @ '']'',
       itemID := r_ID r, meta := MetaRelease r\<rparr>"

definition doMusicBrainzSearch :: "string + MBRelease list \<Rightarrow> string + item list" where
  "doMusicBrainzSearch r =
     (case r of Inl e \<Rightarrow> Inl e | Inr rs \<Rightarrow> Inr (map releaseItem rs))"

definition searchMusicBrainzCmd :: "string + MBRelease list \<Rightarrow> msg" where
  "searchMusicBrainzCmd r =
     (case doMusicBrainzSearch r of
        Inl e \<Rightarrow> mbSearchFinishedMsg [] (Some e)
      | Inr items \<Rightarrow> mbSearchFinishedMsg items None)"

text \<open>
  \<^verbatim>\<open>searchCmd\<close> runs the YouTube search and the MusicBrainz search side by side and
  waits for both. An output line of yt-dlp that is not JSON is skipped: \<open>YtOutput\<close>
  holds, for each line, the video information it decodes to, if any.
\<close>

datatype ytSearch = YtTimeout | YtFailed string | YtOutput "ytDlpVideoInfo option list"

definition videoItem :: "ytDlpVideoInfo \<Rightarrow> item" where
  "videoItem info =
     zeroItem\<lparr>title := v_Title info,
       desc := (if v_Uploader info = [] then v_Channel info else v_Uploader info),
       itemID := v_ID info, url := ''https://www.youtube.com/watch?v='' @ v_ID info\<rparr>"

definition searchCmd :: "ytSearch \<Rightarrow> string + MBRelease list \<Rightarrow> msg" where
  "searchCmd yt mb =
     (case yt of
        YtTimeout \<Rightarrow> searchFinishedMsg [] [] (Some ''The YouTube search timed out'')
      | YtFailed out \<Rightarrow>
          searchFinishedMsg [] [] (Some (''The YouTube search failed:'' @ [CHR 0x0A] @ out))
      | YtOutput parsed \<Rightarrow>
          (case doMusicBrainzSearch mb of
             Inl e \<Rightarrow> searchFinishedMsg [] [] (Some e)
           | Inr mbItems \<Rightarrow>
               searchFinishedMsg (map videoItem (List.map_filter (\<lambda>x. x) parsed)) mbItems None))"

definition trackItem :: "string \<Rightarrow> MBMedia \<Rightarrow> MBTrack \<Rightarrow> item" where
  "trackItem a media t =
     zeroItem\<lparr>title := t_Title t,
       desc := (if Format media \<noteq> [] then ''Track '' @ t_Number t @ '' ('' @ Format media @ '')''
                else ''Track '' @ t_Number t),
       meta := MetaTrack t, artist := a\<rparr>"

definition getTracklistCmd :: "string + MBRelease \<Rightarrow> msg" where
  "getTracklistCmd r =
     (case r of
        Inl e \<Rightarrow> tracklistFinishedMsg [] (Some e)
      | Inr releaseData \<Rightarrow>
          tracklistFinishedMsg
            (concat (map (\<lambda>media. map (trackItem (joinArtistCredits (r_ArtistCredit releaseData)) media)
                                   (Tracks media))
                       (r_Media releaseData)))
            None)"

subsection \<open>The lyrics lookup\<close>

text \<open>
  The body of a response of lrclib, once read as JSON: an object is a map from its keys
  to values. \<^verbatim>\<open>LrclibResponse\<close> has the one field
  \<^verbatim>\<open>PlainLyrics string `json:"syncedLyrics"`\<close>, so decoding reads the key
  \<^verbatim>\<open>syncedLyrics\<close>: a missing key or \<^verbatim>\<open>null\<close> leaves the field empty, a value that is
  not a string is a decoding error. The key is compared exactly here; \<^verbatim>\<open>encoding/json\<close>
  also accepts a key that differs from it in case only.
\<close>

datatype jvalue = JNull | JString string | JNumber int | JBool bool

datatype lrclibReply = RequestFailed | Reply nat "(string \<rightharpoonup> jvalue) option"

definition decodeLrclibResponse :: "(string \<rightharpoonup> jvalue) \<Rightarrow> string option" where
  "decodeLrclibResponse obj =
     (case obj ''syncedLyrics'' of
        None \<Rightarrow> Some []
      | Some JNull \<Rightarrow> Some []
      | Some (JString s) \<Rightarrow> Some s
      | Some _ \<Rightarrow> None)"

text \<open>\<^verbatim>\<open>fmt.Sprintf("%d", n)\<close>.\<close>

fun digits :: "nat \<Rightarrow> string" where
  "digits n = (if n < 10 then [char_of (48 + n)] else digits (n div 10) @ [char_of (48 + n mod 10)])"

declare digits.simps [simp del]

definition Sprintf_d :: "int \<Rightarrow> string" where
  "Sprintf_d i = (if i < 0 then ''-'' @ digits (nat (- i)) else digits (nat i))"

subsection \<open>Decoding a release group\<close>

text \<open>
  \<^verbatim>\<open>MBReleaseGroup struct{ ID, PrimaryType string `json:"id", "primary-type"` }\<close>: the
  one tag belongs to both fields, and its \<^verbatim>\<open>json\<close> key is \<^verbatim>\<open>id\<close>, so both fields have
  the JSON name \<^verbatim>\<open>id\<close>. \<^verbatim>\<open>encoding/json\<close> uses a field of a struct only when no other
  field of the same depth and tagging has its name: fields that share a name are all
  left out, without an error. A field that is left out keeps its zero value.
\<close>

definition releaseGroupFields :: "(string \<times> string) list" where
  "releaseGroupFields = [(''ID'', ''id''), (''PrimaryType'', ''id'')]"

definition usableFields :: "(string \<times> string) list \<Rightarrow> (string \<times> string) list" where
  "usableFields fs = filter (\<lambda>(f, n). length (filter (\<lambda>(g, n'). n' = n) fs) = 1) fs"

definition decodeField :: "(string \<times> string) list \<Rightarrow> (string \<rightharpoonup> jvalue) \<Rightarrow> string \<Rightarrow> string" where
  "decodeField fs obj f =
     (case map_of (usableFields fs) f of
        None \<Rightarrow> []
      | Some n \<Rightarrow> (case obj n of Some (JString v) \<Rightarrow> v | _ \<Rightarrow> []))"

definition decodeReleaseGroup :: "(string \<rightharpoonup> jvalue) \<Rightarrow> MBReleaseGroup" where
  "decodeReleaseGroup obj =
     \<lparr>rg_ID = decodeField releaseGroupFields obj ''ID'',
      rg_PrimaryType = decodeField releaseGroupFields obj ''PrimaryType''\<rparr>"

record fetchEnv =
  mkdirTemp :: "string \<Rightarrow> string \<Rightarrow> string + string"
  runProc :: "string \<Rightarrow> string list \<Rightarrow> string option"
  httpGet :: "string \<Rightarrow> nat option"
  lrclib :: "(string \<times> string) list \<Rightarrow> lrclibReply"

text \<open>
  The outside world of one download: \<open>mkdirTemp\<close> gives the new directory or an error,
  \<open>runProc\<close> the combined output of a failed process (\<open>None\<close> when it succeeds, a
  timeout being a failure), \<open>httpGet\<close> the status of a response (\<open>None\<close> when the
  request fails), \<open>lrclib\<close> the answer to the lyrics query with the given parameters.
\<close>

definition getLyrics :: "fetchEnv \<Rightarrow> string \<Rightarrow> string \<Rightarrow> string \<Rightarrow> int \<Rightarrow> string" where
  "getLyrics env a t al duration =
     (case lrclib env [(''track_name'', t), (''artist_name'', a), (''album_name'', al),
                       (''duration'', Sprintf_d duration)] of
        RequestFailed \<Rightarrow> []
      | Reply status body \<Rightarrow>
          if status \<noteq> 200 then []
          else
            (case body of
               None \<Rightarrow> []
             | Some obj \<Rightarrow> (case decodeLrclibResponse obj of None \<Rightarrow> [] | Some s \<Rightarrow> s)))"

text \<open>
  The plain lyrics of a reply, in the specification's words: the string under the key
  \<^verbatim>\<open>plainLyrics\<close> of the provider's answer.
\<close>

definition plainLyricsOf :: "(string \<rightharpoonup> jvalue) \<Rightarrow> string" where
  "plainLyricsOf obj = (case obj ''plainLyrics'' of Some (JString s) \<Rightarrow> s | _ \<Rightarrow> [])"

subsection \<open>The downloads\<close>

definition mainDir :: string where "mainDir = ''GoMusicDownloader''"
definition downloadsDir :: string where "downloadsDir = ''downloads''"
definition tempDir :: string where "tempDir = ''temp''"

text \<open>\<^verbatim>\<open>filepath.Join\<close> of two elements: an empty element is left out.\<close>

definition Join :: "string \<Rightarrow> string \<Rightarrow> string" where
  "Join a b = (if a = [] then b else if b = [] then a else a @ ''/'' @ b)"

definition simpleDownloadCmd :: "fetchEnv \<Rightarrow> string \<Rightarrow> string \<Rightarrow> item \<Rightarrow> msg" where
  "simpleDownloadCmd env yt ff sYT =
     (case mkdirTemp env (Join mainDir tempDir) ''gomusicdl_*'' of
        Inl e \<Rightarrow> downloadFinishedMsg [] (Some e)
      | Inr tmpDir \<Rightarrow>
          (let audio = Join tmpDir ''audio.tmp'' in
           case runProc env yt [''-f'', ''bestaudio'', ''-o'', audio, url sYT] of
             Some out \<Rightarrow>
               downloadFinishedMsg [] (Some (''Downloading the audio failed:'' @ [CHR 0x0A] @ out))
           | None \<Rightarrow>
               (let finalPath = Join (Join mainDir downloadsDir)
                                  (sanitizeFilename (title sYT @ ''.flac'')) in
                case runProc env ff [''-y'', ''-i'', audio, ''-c:a'', ''flac'', finalPath] of
                  Some out \<Rightarrow>
                    downloadFinishedMsg []
                      (Some (''Converting with ffmpeg failed:'' @ [CHR 0x0A] @ out))
                | None \<Rightarrow> downloadFinishedMsg finalPath None)))"

text \<open>
  The cover goroutine of \<^verbatim>\<open>downloadCmd\<close>. It returns the cover path and, in order, the
  URLs it requested. A lookup gives a cover when the request succeeds with status 200;
  the second lookup runs when \<^verbatim>\<open>coverPath == ""\<close> and the release group has an id.
\<close>

definition releaseCoverURL :: "MBRelease \<Rightarrow> string" where
  "releaseCoverURL releaseInfo =
     ''https://coverartarchive.org/release/'' @ r_ID releaseInfo @ ''/front-500''"

definition groupCoverURL :: "MBRelease \<Rightarrow> string" where
  "groupCoverURL releaseInfo =
     ''https://coverartarchive.org/release-group/'' @ rg_ID (r_ReleaseGroup releaseInfo) @
     ''/front-500''"

definition fetchCover :: "fetchEnv \<Rightarrow> string \<Rightarrow> MBRelease \<Rightarrow> string \<times> string list" where
  "fetchCover env tmpDir releaseInfo =
     (let coverURL = releaseCoverURL releaseInfo;
          cover1 = (if httpGet env coverURL = Some 200 then Join tmpDir ''cover.jpg'' else [])
      in
        if cover1 = [] \<and> rg_ID (r_ReleaseGroup releaseInfo) \<noteq> [] then
          (let coverGroupURL = groupCoverURL releaseInfo
           in ((if httpGet env coverGroupURL = Some 200 then Join tmpDir ''cover.jpg'' else cover1),
               [coverURL, coverGroupURL]))
        else (cover1, [coverURL]))"

record fetchOutcome =
  audioPath :: string
  coverPath :: string
  lyrics :: string
  dlErr :: err
  requests :: "string list"

text \<open>
  The three goroutines of \<^verbatim>\<open>downloadCmd\<close> up to \<^verbatim>\<open>wg.Wait()\<close>. They write separate
  variables, so their order does not matter. The assertion
  \<^verbatim>\<open>selectedMB.meta.(MBRelease)\<close> of the cover goroutine panics on another dynamic type.
\<close>

definition fetchAssets ::
  "fetchEnv \<Rightarrow> string \<Rightarrow> item \<Rightarrow> item \<Rightarrow> finalTags \<Rightarrow> string \<Rightarrow> fetchOutcome outcome" where
  "fetchAssets env yt sYT sMB tags tmpDir =
     (case meta sMB of
        MetaRelease releaseInfo \<Rightarrow>
          Returned
            \<lparr>audioPath = Join tmpDir ''audio.tmp'',
             coverPath = fst (fetchCover env tmpDir releaseInfo),
             lyrics = getLyrics env (Artist tags) (Title tags) (Album tags) (DurationSec tags),
             dlErr =
               (case runProc env yt
                       [''-f'', ''bestaudio'', ''-o'', Join tmpDir ''audio.tmp'', url sYT] of
                  Some out \<Rightarrow> Some (''Downloading the audio failed:'' @ [CHR 0x0A] @ out)
                | None \<Rightarrow> None),
             requests = snd (fetchCover env tmpDir releaseInfo)\<rparr>
      | _ \<Rightarrow> Panicked)"

definition ffmpegArgs :: "finalTags \<Rightarrow> fetchOutcome \<Rightarrow> string \<Rightarrow> string list" where
  "ffmpegArgs tags fo finalPath =
     [''-y'', ''-i'', audioPath fo] @
     (if coverPath fo \<noteq> [] then
        [''-i'', coverPath fo, ''-map'', ''0:a:0'', ''-map'', ''1:v:0'', ''-disposition:v'',
         ''attached_pic'']
      else []) @
     [''-c:a'', ''flac'',
      ''-metadata'', ''title='' @ Title tags,
      ''-metadata'', ''artist='' @ Artist tags,
      ''-metadata'', ''album_artist='' @ AlbumArtist tags,
      ''-metadata'', ''album='' @ Album tags,
      ''-metadata'', ''track='' @ TrackNumber tags,
      ''-metadata'', ''date='' @ Date tags] @
     (if lyrics fo \<noteq> [] then [''-metadata'', ''LYRICS='' @ lyrics fo] else []) @
     [finalPath]"

text \<open>The part of \<^verbatim>\<open>downloadCmd\<close> after \<^verbatim>\<open>wg.Wait()\<close>.\<close>

definition mergeAssets :: "fetchEnv \<Rightarrow> string \<Rightarrow> finalTags \<Rightarrow> fetchOutcome \<Rightarrow> msg" where
  "mergeAssets env ff tags fo =
     (case dlErr fo of
        Some e \<Rightarrow> downloadFinishedMsg [] (Some e)
      | None \<Rightarrow>
          (let finalPath = Join (Join mainDir downloadsDir)
                             (sanitizeFilename (Artist tags @ '' - '' @ Title tags @ ''.flac''))
           in
             case runProc env ff (ffmpegArgs tags fo finalPath) of
               Some out \<Rightarrow>
                 downloadFinishedMsg [] (Some (''Converting with ffmpeg failed:'' @ [CHR 0x0A] @ out))
             | None \<Rightarrow>
                 downloadFinishedMsg
                   (if lyrics fo \<noteq> [] then finalPath @ '' (with lyrics)'' else finalPath) None))"

definition downloadCmd ::
  "fetchEnv \<Rightarrow> string \<Rightarrow> string \<Rightarrow> item \<Rightarrow> item \<Rightarrow> finalTags \<Rightarrow> msg outcome" where
  "downloadCmd env yt ff sYT sMB tags =
     (case mkdirTemp env (Join mainDir tempDir) ''gomusicdl_*'' of
        Inl e \<Rightarrow> Returned (downloadFinishedMsg [] (Some e))
      | Inr tmpDir \<Rightarrow>
          (case fetchAssets env yt sYT sMB tags tmpDir of
             Panicked \<Rightarrow> Panicked
           | Returned fo \<Rightarrow> Returned (mergeAssets env ff tags fo)))"

subsection \<open>The event loop\<close>

text \<open>
  The runtime starts with \<^verbatim>\<open>newModel()\<close> and the command of \<^verbatim>\<open>Init\<close>, runs every
  command of a batch in the background and feeds the message each one returns to
  \<^verbatim>\<open>Update\<close>, one message at a time, in the order the commands finish. A
  configuration is the model with the commands still running; an event is a key, a
  resize, or the end of one running command with the answer the outside world gave it.
\<close>

datatype response =
    RespCheckYtDlp "string option" bool bool
  | RespCheckFfmpeg "string + string"
  | RespUrlInfo urlInfo
  | RespSearch ytSearch "string + MBRelease list"
  | RespMusicBrainz "string + MBRelease list"
  | RespTracklist "string + MBRelease"
  | RespDownload fetchEnv
  | RespNone

definition complete :: "cmd \<Rightarrow> response \<Rightarrow> msg outcome option" where
  "complete c r =
     (case c of
        Quit \<Rightarrow> None
      | CheckYtDlpCmd \<Rightarrow>
          (case r of
             RespCheckYtDlp lp win loc \<Rightarrow> Some (Returned (checkYtDlpCmd lp win loc))
           | _ \<Rightarrow> None)
      | CheckFfmpegCmd \<Rightarrow>
          (case r of RespCheckFfmpeg lp \<Rightarrow> Some (Returned (checkFfmpegCmd lp)) | _ \<Rightarrow> None)
      | GetURLInfoCmd yt query \<Rightarrow>
          (case r of RespUrlInfo u \<Rightarrow> Some (Returned (getURLInfoCmd query u)) | _ \<Rightarrow> None)
      | SearchCmd yt query \<Rightarrow>
          (case r of RespSearch y mb \<Rightarrow> Some (Returned (searchCmd y mb)) | _ \<Rightarrow> None)
      | SearchMusicBrainzCmd query \<Rightarrow>
          (case r of
             RespMusicBrainz mb \<Rightarrow> Some (Returned (searchMusicBrainzCmd mb))
           | _ \<Rightarrow> None)
      | GetTracklistCmd releaseID \<Rightarrow>
          (case r of RespTracklist t \<Rightarrow> Some (Returned (getTracklistCmd t)) | _ \<Rightarrow> None)
      | DownloadCmd yt ff sYT sMB tags \<Rightarrow>
          (case r of RespDownload env \<Rightarrow> Some (downloadCmd env yt ff sYT sMB tags) | _ \<Rightarrow> None)
      | SimpleDownloadCmd yt ff sYT \<Rightarrow>
          (case r of
             RespDownload env \<Rightarrow> Some (Returned (simpleDownloadCmd env yt ff sYT))
           | _ \<Rightarrow> None)
      | ResetCmd \<Rightarrow> (case r of RespNone \<Rightarrow> Some (Returned resetMsg) | _ \<Rightarrow> None)
      | SpinnerTick \<Rightarrow> (case r of RespNone \<Rightarrow> Some (Returned SpinnerTickMsg) | _ \<Rightarrow> None)
      | Blink \<Rightarrow> (case r of RespNone \<Rightarrow> Some (Returned OtherMsg) | _ \<Rightarrow> None)
      | FocusCmd \<Rightarrow> (case r of RespNone \<Rightarrow> Some (Returned OtherMsg) | _ \<Rightarrow> None)
      | LibCmd \<Rightarrow> (case r of RespNone \<Rightarrow> Some (Returned OtherMsg) | _ \<Rightarrow> None))"

record config =
  cmodel :: model
  inflight :: "cmd list"

datatype event = EvKey Key | EvResize int int | EvDone nat response

datatype status = Impossible | Crashed | Running config

definition initConfig :: config where
  "initConfig = \<lparr>cmodel = newModel, inflight = [CheckYtDlpCmd]\<rparr>"

definition deliver :: "lib \<Rightarrow> model \<Rightarrow> cmd list \<Rightarrow> msg \<Rightarrow> status" where
  "deliver L m running e =
     (case Update L m e of
        Panicked \<Rightarrow> Crashed
      | Returned (m', cmds) \<Rightarrow> Running \<lparr>cmodel = m', inflight = running @ cmds\<rparr>)"

text \<open>Once \<^verbatim>\<open>tea.Quit\<close> is among the commands, the program ends: no event follows.\<close>

definition step :: "lib \<Rightarrow> config \<Rightarrow> event \<Rightarrow> status" where
  "step L c ev =
     (if Quit \<in> set (inflight c) then Impossible
      else
        (case ev of
           EvKey k \<Rightarrow> deliver L (cmodel c) (inflight c) (KeyMsg k)
         | EvResize w h \<Rightarrow> deliver L (cmodel c) (inflight c) (WindowSizeMsg w h)
         | EvDone n r \<Rightarrow>
             (if n < length (inflight c) then
                (case complete (inflight c ! n) r of
                   None \<Rightarrow> Impossible
                 | Some Panicked \<Rightarrow> Crashed
                 | Some (Returned e) \<Rightarrow>
                     deliver L (cmodel c) (take n (inflight c) @ drop (Suc n) (inflight c)) e)
              else Impossible)))"

fun exec :: "lib \<Rightarrow> config \<Rightarrow> event list \<Rightarrow> status" where
  "exec L c [] = Running c"
| "exec L c (ev # evs) =
     (case step L c ev of
        Running c' \<Rightarrow> exec L c' evs
      | Crashed \<Rightarrow> (if evs = [] then Crashed else Impossible)
      | Impossible \<Rightarrow> Impossible)"

inductive reachable :: "lib \<Rightarrow> config \<Rightarrow> bool" for L :: lib where
  reachable_init: "reachable L initConfig"
| reachable_step: "reachable L c \<Longrightarrow> step L c ev = Running c' \<Longrightarrow> reachable L c'"

subsection \<open>What the payload of an item is\<close>

definition isTrack :: "meta \<Rightarrow> bool" where
  "isTrack x = (case x of MetaTrack t \<Rightarrow> True | _ \<Rightarrow> False)"

definition isRelease :: "meta \<Rightarrow> bool" where
  "isRelease x = (case x of MetaRelease r \<Rightarrow> True | _ \<Rightarrow> False)"

text \<open>
  The invariant of the event loop: the track list holds tracks, the release list holds
  releases, and while the tags are edited there are five inputs, the focus is on one of
  them, the selected track is a track and the selected release a release.
\<close>

definition modelInv :: "model \<Rightarrow> bool" where
  "modelInv m =
     (list_all (\<lambda>i. isTrack (meta i)) (listItems (tracklist m))
      \<and> list_all (\<lambda>i. isRelease (meta i)) (listItems (mbResults m))
      \<and> (if state m = stateEditTags then
            length (tagInputs m) = 5 \<and> 0 \<le> focusIndex m \<and> focusIndex m < 5
            \<and> isTrack (meta (selectedTrack m)) \<and> isRelease (meta (selectedMB m))
          else True))"

definition wellFormed :: "msg \<Rightarrow> bool" where
  "wellFormed e =
     (case e of
        searchFinishedMsg ytItems mbItems er \<Rightarrow> list_all (\<lambda>i. isRelease (meta i)) mbItems
      | mbSearchFinishedMsg items er \<Rightarrow> list_all (\<lambda>i. isRelease (meta i)) items
      | tracklistFinishedMsg items er \<Rightarrow> list_all (\<lambda>i. isTrack (meta i)) items
      | _ \<Rightarrow> True)"

text \<open>A concrete library for examples: lists and inputs ignore every message.\<close>

definition idleLib :: lib where
  "idleLib = \<lparr>listMove = (\<lambda>e l. listIndex l), inputEdit = (\<lambda>e t. tiValue t),
     inputSet = (\<lambda>v. v), spinnerStep = Suc\<rparr>"

subsection \<open>Concrete keys, data and runs\<close>

definition plainKey :: "KeyType \<Rightarrow> Key" where
  "plainKey t = \<lparr>keyType = t, runes = [], alt = False\<rparr>"

definition runeKey :: "string \<Rightarrow> Key" where
  "runeKey s = \<lparr>keyType = KeyRunes, runes = s, alt = False\<rparr>"

definition track1 :: MBTrack where
  "track1 = \<lparr>t_ID = ''t1'', t_Title = ''Song A'', t_Number = ''1'', t_Length = 215500,
     t_Genres = []\<rparr>"

text \<open>
  The release group MusicBrainz sends with the release, and the release as the program
  holds it after decoding.
\<close>

definition group1 :: "string \<rightharpoonup> jvalue" where
  "group1 = [''id'' \<mapsto> JString ''g1'', ''primary-type'' \<mapsto> JString ''Album'']"

definition release1 :: MBRelease where
  "release1 =
     \<lparr>r_ID = ''r1'', r_Title = ''Album A'',
      r_ArtistCredit = [\<lparr>Name = ''Artist A'', JoinPhrase = []\<rparr>],
      r_Date = ''2020'', r_Media = [\<lparr>Format = ''CD'', Tracks = [track1]\<rparr>],
      r_ReleaseGroup = decodeReleaseGroup group1\<rparr>"

definition video1 :: ytDlpVideoInfo where
  "video1 = \<lparr>v_ID = ''v1'', v_Title = ''Song A'', v_Uploader = ''Artist A'', v_Channel = []\<rparr>"

definition isRunning :: "status \<Rightarrow> bool" where
  "isRunning s = (case s of Running c \<Rightarrow> True | _ \<Rightarrow> False)"

definition configOf :: "status \<Rightarrow> config" where
  "configOf s = (case s of Running c \<Rightarrow> c | _ \<Rightarrow> initConfig)"

text \<open>
  A run to the tag editor: both tools are found, an empty query is searched, the video
  and the release are chosen, the track list arrives and its track is chosen.
\<close>

definition editTrace :: "event list" where
  "editTrace =
     [EvDone 0 (RespCheckYtDlp (Some ''/usr/bin/yt-dlp'') False False),
      EvDone 0 (RespCheckFfmpeg (Inr ''/usr/bin/ffmpeg'')),
      EvKey (plainKey KeyEnter),
      EvDone 2 (RespSearch (YtOutput [Some video1]) (Inr [release1])),
      EvKey (plainKey KeyEnter),
      EvDone 4 (RespMusicBrainz (Inr [release1])),
      EvKey (plainKey KeyEnter),
      EvDone 6 (RespTracklist (Inr release1)),
      EvKey (plainKey KeyEnter)]"

text \<open>The same run with the first four of the five fields confirmed.\<close>

definition lastFieldTrace :: "event list" where
  "lastFieldTrace = editTrace @ replicate 4 (EvKey (plainKey KeyEnter))"

text \<open>
  A run in which a track list arrives late. The release is chosen, the user goes back
  with Esc and chooses it again, so two track-list requests are running. The second
  fails, the error screen is left by a key, and the reset clears the selected release.
  Then the first request answers, the track list is shown, and Enter on it calls
  \<^verbatim>\<open>createTagInputs\<close>. The key \<^verbatim>\<open>/\<close> before the first choice concerns the list
  component alone, whose filter it opens; the controller ignores it.
\<close>

definition staleTrace :: "event list" where
  "staleTrace =
     [EvDone 0 (RespCheckYtDlp (Some ''/usr/bin/yt-dlp'') False False),
      EvDone 0 (RespCheckFfmpeg (Inr ''/usr/bin/ffmpeg'')),
      EvKey (plainKey KeyEnter),
      EvDone 2 (RespSearch (YtOutput [Some video1]) (Inr [])),
      EvKey (plainKey KeyEnter),
      EvDone 4 (RespMusicBrainz (Inr [release1])),
      EvKey (runeKey ''/''),
      EvKey (plainKey KeyEnter),
      EvKey (plainKey KeyEsc),
      EvKey (plainKey KeyEnter),
      EvDone 11 (RespTracklist (Inl ''timeout'')),
      EvKey (runeKey ''x''),
      EvDone 12 RespNone,
      EvDone 7 (RespTracklist (Inr release1)),
      EvKey (plainKey KeyEnter)]"

text \<open>Two outside worlds of a download, and one answer of lrclib.\<close>

definition lrclibObject :: "string \<rightharpoonup> jvalue" where
  "lrclibObject = [''plainLyrics'' \<mapsto> JString ''la la la'', ''syncedLyrics'' \<mapsto> JNull]"

definition lrclibObject2 :: "string \<rightharpoonup> jvalue" where
  "lrclibObject2 =
     [''plainLyrics'' \<mapsto> JString ''la la la'', ''syncedLyrics'' \<mapsto> JString ''[00:01.00] la la la'']"

definition bareEnv :: fetchEnv where
  "bareEnv =
     \<lparr>mkdirTemp = (\<lambda>dir pat. Inr ''GoMusicDownloader/temp/gomusicdl_1''),
      runProc = (\<lambda>prog args. None),
      httpGet = (\<lambda>u. None),
      lrclib = (\<lambda>q. RequestFailed)\<rparr>"

definition noAudioEnv :: fetchEnv where
  "noAudioEnv =
     \<lparr>mkdirTemp = (\<lambda>dir pat. Inr ''GoMusicDownloader/temp/gomusicdl_1''),
      runProc = (\<lambda>prog args. if prog = ''yt-dlp'' then Some ''ERROR: unavailable'' else None),
      httpGet = (\<lambda>u. Some 200),
      lrclib = (\<lambda>q. Reply 200 (Some lrclibObject2))\<rparr>"

text \<open>
  The cover archive has no front image of the release \<^verbatim>\<open>r1\<close> (status 404) and has one
  of every release group.
\<close>

definition notFoundEnv :: fetchEnv where
  "notFoundEnv =
     bareEnv\<lparr>httpGet :=
       (\<lambda>u. if u = ''https://coverartarchive.org/release/r1/front-500'' then Some 404
            else Some 200)\<rparr>"

definition plainOnlyEnv :: fetchEnv where
  "plainOnlyEnv = bareEnv\<lparr>lrclib := (\<lambda>q. Reply 200 (Some lrclibObject))\<rparr>"

definition bothLyricsEnv :: fetchEnv where
  "bothLyricsEnv = bareEnv\<lparr>lrclib := (\<lambda>q. Reply 200 (Some lrclibObject2))\<rparr>"

definition tags1 :: finalTags where
  "tags1 = \<lparr>Title = ''Song A'', Artist = ''Artist A'', Album = ''Album A'', Date = ''2020'',
     TrackNumber = ''1'', AlbumArtist = ''Artist A'', Lyrics = [], DurationSec = 215\<rparr>"

subsection \<open>Properties of the sanitizer\<close>

lemma replaceByte_cases:
  "replaceByte c =
     (if c = CHR 0x22 then CHR 0x27 else if c \<in> unsafeChars then CHR ''-'' else c)"
  by (simp add: replaceByte_def replacerPairs_def unsafeChars_def)

lemma replaceByte_safe: "replaceByte c \<notin> unsafeChars"
  by (simp add: replaceByte_cases) (simp add: unsafeChars_def)

lemma replaceByte_idem: "replaceByte (replaceByte c) = replaceByte c"
  using replaceByte_safe [of c] by (simp add: replaceByte_cases [of "replaceByte c"] unsafeChars_def)

text \<open>
  Claim C8. The sanitizer is idempotent, its output contains none of the nine unsafe
  characters, and it replaces every occurrence of one in place: the double quote by an
  apostrophe, the other eight by a hyphen, every other byte unchanged.
\<close>

theorem sanitizeFilename_idempotent_safe:
  "sanitizeFilename (sanitizeFilename s) = sanitizeFilename s
   \<and> set (sanitizeFilename s) \<inter> unsafeChars = {}
   \<and> length (sanitizeFilename s) = length s
   \<and> (\<forall>i < length s. sanitizeFilename s ! i =
         (if s ! i = CHR 0x22 then CHR 0x27
          else if s ! i \<in> unsafeChars then CHR ''-'' else s ! i))"
proof -
  have idem: "sanitizeFilename (sanitizeFilename s) = sanitizeFilename s"
    by (simp add: sanitizeFilename_def replaceByte_idem)
  have safe: "set (sanitizeFilename s) \<inter> unsafeChars = {}"
    using replaceByte_safe by (auto simp: sanitizeFilename_def)
  have pointwise: "\<forall>i < length s. sanitizeFilename s ! i =
         (if s ! i = CHR 0x22 then CHR 0x27
          else if s ! i \<in> unsafeChars then CHR ''-'' else s ! i)"
    by (simp add: sanitizeFilename_def replaceByte_cases)
  show ?thesis
    using idem safe pointwise by (simp add: sanitizeFilename_def)
qed

theorem sanitizeFilename_idempotent_safe_witness:
  "sanitizeFilename (sanitizeFilename ''AC/DC: Who?.flac'') = ''AC-DC- Who-.flac''
   \<and> set (sanitizeFilename ''AC/DC: Who?.flac'') \<inter> unsafeChars = {}
   \<and> (1::nat) < length ''AC/DC: Who?.flac''
   \<and> sanitizeFilename ''a/b'' ! 1 = CHR ''-''"
  using sanitizeFilename_idempotent_safe [of "''AC/DC: Who?.flac''"]
    sanitizeFilename_idempotent_safe [of "''a/b''"]
  by (simp add: sanitizeFilename_def replaceByte_cases unsafeChars_def)

subsection \<open>The invariant is kept by every step\<close>

lemma SelectedItem_mem: "SelectedItem l = Some i \<Longrightarrow> i \<in> set (listItems l)"
  by (auto simp: SelectedItem_def split: if_splits)

lemma length_focusAt [simp]: "length (focusAt i ts) = length ts"
  by (simp add: focusAt_def)

lemma length_focusOnly [simp]: "length (focusOnly f ts) = length ts"
  by (simp add: focusOnly_def)

lemma createTagInputs_Returned:
  "createTagInputs L m = Returned ts \<Longrightarrow>
     length ts = 5 \<and> isTrack (meta (selectedTrack m)) \<and> isRelease (meta (selectedMB m))"
  by (auto simp: createTagInputs_def isTrack_def isRelease_def split: meta.splits)

lemma keySelectYT_inv:
  "modelInv m \<Longrightarrow> state m = stateSelectYT \<Longrightarrow> keySelectYT m k = Returned (m', cmds) \<Longrightarrow> modelInv m'"
  by (auto simp: keySelectYT_def modelInv_def split: if_splits option.splits)

lemma keySelectMB_inv:
  "modelInv m \<Longrightarrow> state m = stateSelectMB \<Longrightarrow> keySelectMB m k = Returned (m', cmds) \<Longrightarrow> modelInv m'"
  by (auto simp: keySelectMB_def modelInv_def split: if_splits option.splits)

lemma keySelectTrack_inv:
  assumes "modelInv m" "state m = stateSelectTrack" "keySelectTrack L m k = Returned (m', cmds)"
  shows "modelInv m'"
proof (cases "keyType k = KeyEnter")
  case True
  show ?thesis
  proof (cases "SelectedItem (tracklist m)")
    case None
    with True assms show ?thesis by (simp add: keySelectTrack_def)
  next
    case (Some i)
    let ?m1 = "m\<lparr>selectedTrack := i, state := stateEditTags, focusIndex := 0\<rparr>"
    from True Some assms(3) obtain ts where
      ts: "createTagInputs L ?m1 = Returned ts" and m': "m' = ?m1\<lparr>tagInputs := focusAt 0 ts\<rparr>"
      by (auto simp: keySelectTrack_def Let_def split: outcome.splits)
    from createTagInputs_Returned [OF ts] assms(1) show ?thesis
      by (simp add: m' modelInv_def)
  qed
next
  case False
  with assms show ?thesis
    by (auto simp: keySelectTrack_def modelInv_def split: if_splits)
qed

lemma keyEditTags_inv:
  "modelInv m \<Longrightarrow> state m = stateEditTags \<Longrightarrow> keyEditTags m k = Returned (m', cmds) \<Longrightarrow> modelInv m'"
  by (auto simp: keyEditTags_def modelInv_def Let_def split: if_splits meta.splits)

lemma keyInput_inv:
  "modelInv m \<Longrightarrow> state m = stateInput \<Longrightarrow> keyInput m k = Returned (m', cmds) \<Longrightarrow> modelInv m'"
  by (auto simp: keyInput_def modelInv_def Let_def split: if_splits)

lemma keyConfirmSkipMB_inv:
  "modelInv m \<Longrightarrow> state m = stateConfirmSkipMB \<Longrightarrow> keyConfirmSkipMB m k = Returned (m', cmds) \<Longrightarrow> modelInv m'"
  by (auto simp: keyConfirmSkipMB_def modelInv_def Let_def split: if_splits)

lemma handleKey_inv:
  "modelInv m \<Longrightarrow> handleKey L m k = Returned (m', cmds) \<Longrightarrow> modelInv m'"
  by (cases "state m")
     (auto simp: handleKey_def dest: keySelectYT_inv keySelectMB_inv keySelectTrack_inv
        keyEditTags_inv keyInput_inv keyConfirmSkipMB_inv)

lemma modelInv_newModel: "modelInv newModel"
  by (simp add: modelInv_def newModel_def newList_def)

lemma modelInv_reset: "modelInv (reset m)"
  by (simp add: modelInv_def reset_def newModel_def newList_def)

lemma handleMsg_inv:
  assumes "modelInv m" "wellFormed e"
  shows "modelInv (fst (handleMsg L m e))"
proof (cases e)
  case resetMsg
  then show ?thesis by (simp add: handleMsg_def modelInv_reset)
qed (use assms in \<open>simp_all add: handleMsg_def wellFormed_def modelInv_def SetSize_def newList_def\<close>)

lemma subUpdate_inv:
  "modelInv m \<Longrightarrow> subUpdate L e (m, cmds) = Returned (m', cmds') \<Longrightarrow> modelInv m'"
  by (cases "state m")
     (auto simp: subUpdate_def modelInv_def list_Update_def split: if_splits)

lemma Update_nonkey:
  "\<forall>k. e \<noteq> KeyMsg k \<Longrightarrow> Update L m e = subUpdate L e (handleMsg L m e)"
  by (cases e) (simp_all add: Update_def)

lemma Update_inv:
  assumes "modelInv m" "wellFormed e" "Update L m e = Returned (m', cmds)"
  shows "modelInv m'"
proof (cases "\<exists>k. e = KeyMsg k")
  case True
  then obtain k where KeyMsg: "e = KeyMsg k" by blast
  show ?thesis
  proof (cases "keyType k = KeyCtrlC")
    case True
    with KeyMsg assms show ?thesis by (simp add: Update_def)
  next
    case False
    with KeyMsg assms(3) obtain m1 c1 where
      h: "handleKey L m k = Returned (m1, c1)" and s: "subUpdate L e (m1, c1) = Returned (m', cmds)"
      by (auto simp: Update_def split: outcome.splits)
    from handleKey_inv [OF assms(1) h] have "modelInv m1" .
    from subUpdate_inv [OF this s] show ?thesis .
  qed
next
  case False
  then have u: "Update L m e = subUpdate L e (handleMsg L m e)"
    by (intro Update_nonkey) simp
  obtain m1 c1 where h: "handleMsg L m e = (m1, c1)" by (cases "handleMsg L m e")
  from handleMsg_inv [OF assms(1,2), of L] h have "modelInv m1" by simp
  moreover from u h assms(3) have "subUpdate L e (m1, c1) = Returned (m', cmds)" by simp
  ultimately show ?thesis by (rule subUpdate_inv)
qed

subsection \<open>Well-formed messages and reachable configurations\<close>

lemma wellFormed_getTracklistCmd: "wellFormed (getTracklistCmd r)"
  by (cases r) (simp_all add: getTracklistCmd_def wellFormed_def list_all_iff trackItem_def isTrack_def)

lemma wellFormed_searchMusicBrainzCmd: "wellFormed (searchMusicBrainzCmd r)"
  by (cases r)
     (simp_all add: searchMusicBrainzCmd_def doMusicBrainzSearch_def wellFormed_def list_all_iff
        releaseItem_def isRelease_def)

lemma wellFormed_searchCmd: "wellFormed (searchCmd y r)"
  by (cases y; cases r)
     (simp_all add: searchCmd_def doMusicBrainzSearch_def wellFormed_def list_all_iff
        releaseItem_def isRelease_def)

lemma wellFormed_downloadCmd: "downloadCmd env yt ff sYT sMB tags = Returned e \<Longrightarrow> wellFormed e"
  by (auto simp: downloadCmd_def mergeAssets_def wellFormed_def Let_def
      split: sum.splits outcome.splits option.splits)

lemma wellFormed_simpleDownloadCmd: "wellFormed (simpleDownloadCmd env yt ff sYT)"
  by (simp add: simpleDownloadCmd_def wellFormed_def Let_def split: sum.splits option.splits)

lemma wellFormed_misc:
  "wellFormed (checkYtDlpCmd lp win loc)" "wellFormed (checkFfmpegCmd l)"
  "wellFormed (getURLInfoCmd q u)" "wellFormed resetMsg" "wellFormed SpinnerTickMsg"
  "wellFormed OtherMsg" "wellFormed (KeyMsg k)" "wellFormed (WindowSizeMsg w h)"
  by (simp_all add: wellFormed_def checkYtDlpCmd_def checkFfmpegCmd_def getURLInfoCmd_def Let_def
      split: option.splits sum.splits urlInfo.splits)

lemma complete_wellFormed: "complete c r = Some (Returned e) \<Longrightarrow> wellFormed e"
  by (cases c; cases r)
     (auto simp: complete_def wellFormed_getTracklistCmd wellFormed_searchMusicBrainzCmd
        wellFormed_searchCmd wellFormed_simpleDownloadCmd wellFormed_misc
        dest: wellFormed_downloadCmd)

lemma deliver_inv:
  "modelInv m \<Longrightarrow> wellFormed e \<Longrightarrow> deliver L m run e = Running c' \<Longrightarrow> modelInv (cmodel c')"
  by (auto simp: deliver_def split: outcome.splits dest: Update_inv)

lemma step_inv:
  assumes "modelInv (cmodel c)" "step L c ev = Running c'"
  shows "modelInv (cmodel c')"
proof (cases ev)
  case (EvKey k)
  with assms show ?thesis
    by (auto simp: step_def wellFormed_misc split: if_splits dest: deliver_inv [rotated 2])
next
  case (EvResize w h)
  with assms show ?thesis
    by (auto simp: step_def wellFormed_misc split: if_splits dest: deliver_inv [rotated 2])
next
  case (EvDone n r)
  with assms(2) obtain e where
    c: "complete (inflight c ! n) r = Some (Returned e)" and
    d: "deliver L (cmodel c) (take n (inflight c) @ drop (Suc n) (inflight c)) e = Running c'"
    by (auto simp: step_def split: if_splits option.splits outcome.splits)
  from deliver_inv [OF assms(1) complete_wellFormed [OF c] d] show ?thesis .
qed

lemma reachable_inv: "reachable L c \<Longrightarrow> modelInv (cmodel c)"
  by (induction rule: reachable.induct)
     (auto simp: initConfig_def modelInv_newModel intro: step_inv)

lemma exec_reachable: "reachable L c \<Longrightarrow> exec L c evs = Running c' \<Longrightarrow> reachable L c'"
proof (induction evs arbitrary: c)
  case Nil
  then show ?case by simp
next
  case (Cons ev evs)
  from Cons.prems(2) obtain c1 where s: "step L c ev = Running c1" and e: "exec L c1 evs = Running c'"
    by (auto split: status.splits if_splits)
  from reachable_step [OF Cons.prems(1) s] have "reachable L c1" .
  from Cons.IH [OF this e] show ?case .
qed

lemma isRunning_configOf: "isRunning s \<Longrightarrow> s = Running (configOf s)"
  by (cases s) (simp_all add: isRunning_def configOf_def)

lemma reachable_run:
  "isRunning (exec L initConfig evs) \<Longrightarrow> reachable L (configOf (exec L initConfig evs))"
  using exec_reachable [OF reachable_init, of L evs] isRunning_configOf by metis

lemma Update_EditTags_total:
  assumes "modelInv m" "state m = stateEditTags"
  shows "\<exists>m' cmds. Update L m e = Returned (m', cmds)"
proof (cases "\<exists>k. e = KeyMsg k")
  case True
  then obtain k where k: "e = KeyMsg k" by blast
  from assms have n: "length (tagInputs m) = 5" "0 \<le> focusIndex m" "focusIndex m < 5"
    and t: "isTrack (meta (selectedTrack m))"
    by (simp_all add: modelInv_def)
  from t obtain tr where tr: "meta (selectedTrack m) = MetaTrack tr"
    by (cases "meta (selectedTrack m)") (simp_all add: isTrack_def)
  have "\<exists>m1 c1. handleKey L m k = Returned (m1, c1)"
    using n tr assms(2)
    by (cases "keyType k = KeyEnter"; cases "focusIndex m = 4")
       (simp_all add: handleKey_def keyEditTags_def Let_def)
  then obtain m1 c1 where h: "handleKey L m k = Returned (m1, c1)" by blast
  have "modelInv m1" using handleKey_inv [OF assms(1) h] .
  then have "\<exists>m' cmds. subUpdate L e (m1, c1) = Returned (m', cmds)"
    by (cases "state m1") (auto simp: subUpdate_def modelInv_def)
  with h k show ?thesis
    by (cases "keyType k = KeyCtrlC") (auto simp: Update_def)
next
  case False
  then have u: "Update L m e = subUpdate L e (handleMsg L m e)"
    by (intro Update_nonkey) simp
  obtain m1 c1 where h: "handleMsg L m e = (m1, c1)" by (cases "handleMsg L m e")
  have "state m1 \<noteq> stateEditTags \<or> (length (tagInputs m1) = 5 \<and> 0 \<le> focusIndex m1 \<and> focusIndex m1 < 5)"
    using h assms False
    by (cases e) (auto simp: handleMsg_def modelInv_def reset_def newModel_def split: if_splits)
  then have "\<exists>m' cmds. subUpdate L e (m1, c1) = Returned (m', cmds)"
    by (cases "state m1") (auto simp: subUpdate_def)
  with u h show ?thesis by simp
qed

section \<open>The claims about the controller\<close>

subsection \<open>Skipping the metadata\<close>

lemma keyString_s_type: "keyString k = ''s'' \<Longrightarrow> keyType k \<noteq> KeyEnter \<and> keyType k \<noteq> KeyCtrlC"
  by (cases "keyType k"; cases "alt k") (auto simp: keyString_def)

lemma SelectYT_key:
  assumes "state m = stateSelectYT"
  shows "\<exists>m' cmds. Update L m (KeyMsg k) = Returned (m', cmds)
           \<and> state m' \<in> {stateSelectYT, stateSearching, stateInput}"
  using assms
  by (auto simp: Update_def handleKey_def keySelectYT_def subUpdate_def split: option.splits)

lemma SelectMB_skip:
  assumes "state m = stateSelectMB" "keyString k = ''s''"
  shows "Update L m (KeyMsg k) = Returned (m\<lparr>state := stateConfirmSkipMB\<rparr>, [])"
  using assms keyString_s_type [OF assms(2)]
  by (simp add: Update_def handleKey_def keySelectMB_def subUpdate_def)

text \<open>
  Claim C1, as amended. In \<^verbatim>\<open>stateSelectYT\<close> no key leads to
  \<^verbatim>\<open>stateConfirmSkipMB\<close>: after any key the state is \<^verbatim>\<open>stateSelectYT\<close>,
  \<^verbatim>\<open>stateSearching\<close> or \<^verbatim>\<open>stateInput\<close>. The skip key \<^verbatim>\<open>s\<close> belongs to
  \<^verbatim>\<open>stateSelectMB\<close>, where it sets the state to \<^verbatim>\<open>stateConfirmSkipMB\<close> and dispatches
  no command, so no download.
\<close>

theorem skip_key_is_in_SelectMB:
  "(state m = stateSelectYT \<longrightarrow>
      (\<exists>m' cmds. Update L m (KeyMsg k) = Returned (m', cmds)
         \<and> state m' \<in> {stateSelectYT, stateSearching, stateInput}))
   \<and> (state m = stateSelectMB \<and> keyString k = ''s'' \<longrightarrow>
        Update L m (KeyMsg k) = Returned (m\<lparr>state := stateConfirmSkipMB\<rparr>, []))"
  using SelectYT_key SelectMB_skip by blast

theorem skip_key_is_in_SelectMB_witness:
  "(\<exists>m' cmds. Update idleLib (newModel\<lparr>state := stateSelectYT\<rparr>) (KeyMsg (runeKey ''s''))
        = Returned (m', cmds) \<and> state m' \<in> {stateSelectYT, stateSearching, stateInput})
   \<and> Update idleLib (newModel\<lparr>state := stateSelectMB\<rparr>) (KeyMsg (runeKey ''s''))
        = Returned (newModel\<lparr>state := stateConfirmSkipMB\<rparr>, [])"
  using skip_key_is_in_SelectMB [of "newModel\<lparr>state := stateSelectYT\<rparr>" idleLib "runeKey ''s''"]
    skip_key_is_in_SelectMB [of "newModel\<lparr>state := stateSelectMB\<rparr>" idleLib "runeKey ''s''"]
  by (simp add: keyString_def runeKey_def)

text \<open>
  Claim C1 as stated fails: for the new model put into \<^verbatim>\<open>stateSelectYT\<close> there is no
  key whose handling ends in \<^verbatim>\<open>stateConfirmSkipMB\<close>.
\<close>

theorem no_skip_key_in_SelectYT:
  "\<not> (\<exists>k m' cmds. Update idleLib (newModel\<lparr>state := stateSelectYT\<rparr>) (KeyMsg k)
          = Returned (m', cmds) \<and> state m' = stateConfirmSkipMB)"
proof
  assume "\<exists>k m' cmds. Update idleLib (newModel\<lparr>state := stateSelectYT\<rparr>) (KeyMsg k)
          = Returned (m', cmds) \<and> state m' = stateConfirmSkipMB"
  then obtain k m' cmds where
    u: "Update idleLib (newModel\<lparr>state := stateSelectYT\<rparr>) (KeyMsg k) = Returned (m', cmds)"
    and s: "state m' = stateConfirmSkipMB" by blast
  from SelectYT_key [of "newModel\<lparr>state := stateSelectYT\<rparr>" idleLib k] u
  have "state m' \<in> {stateSelectYT, stateSearching, stateInput}" by simp
  with s show False by simp
qed

subsection \<open>The end of the combined search\<close>

text \<open>
  Claim C10. A combined search that ends without error puts the controller into
  \<^verbatim>\<open>stateSelectYT\<close> whatever the two lists hold, the empty lists included: the video
  list shown is the list returned, no error is set and nothing is dispatched but the
  list's own command. \<^verbatim>\<open>searchCmd\<close> sends such a message whenever both searches
  succeed, also when no line of the YouTube output decodes.
\<close>

theorem search_success_goes_to_SelectYT:
  "(\<exists>m' cmds. Update L m (searchFinishedMsg ytItems mbItems None) = Returned (m', cmds)
       \<and> state m' = stateSelectYT
       \<and> listItems (ytResults m') = ytItems
       \<and> listItems (mbResults m') = mbItems
       \<and> error m' = error m
       \<and> cmds = [LibCmd])
   \<and> searchCmd (YtOutput parsed) (Inr rs) =
       searchFinishedMsg (map videoItem (List.map_filter (\<lambda>x. x) parsed)) (map releaseItem rs) None
   \<and> searchCmd (YtOutput []) (Inr []) = searchFinishedMsg [] [] None
   \<and> searchCmd (YtOutput [None]) (Inr []) = searchFinishedMsg [] [] None"
  by (simp add: Update_def handleMsg_def subUpdate_def list_Update_def SetSize_def newList_def
      searchCmd_def doMusicBrainzSearch_def List.map_filter_def)

subsection \<open>The reset\<close>

lemma Update_resetMsg:
  "Update L m resetMsg =
     Returned ((reset m)\<lparr>input := textinput_Update L resetMsg (input (reset m))\<rparr>, [Blink, LibCmd])"
  by (simp add: Update_def handleMsg_def subUpdate_def reset_def)

lemma terminal_key:
  "state m = stateShowSuccess \<or> state m = stateError \<Longrightarrow> keyType k \<noteq> KeyCtrlC \<Longrightarrow>
     Update L m (KeyMsg k) = Returned (m, [ResetCmd])"
  by (auto simp: Update_def handleKey_def subUpdate_def)

text \<open>
  Claim C6, as amended. In \<^verbatim>\<open>stateShowSuccess\<close> and \<^verbatim>\<open>stateError\<close> every key but Ctrl+C
  leaves the model as it is and dispatches the reset command, which sends
  \<^verbatim>\<open>resetMsg\<close>. Handling \<^verbatim>\<open>resetMsg\<close> gives the new model with the two tool paths and
  the width and height of the old one, in \<^verbatim>\<open>stateInput\<close>, with the empty status (not
  the status of a new model) and with the query input handed the message. The
  selections, the tag inputs, the error and the last file are those of a new model:
  empty.
\<close>

theorem reset_after_terminal_state:
  "((state m = stateShowSuccess \<or> state m = stateError) \<and> keyType k \<noteq> KeyCtrlC \<longrightarrow>
       Update L m (KeyMsg k) = Returned (m, [ResetCmd]))
   \<and> complete ResetCmd RespNone = Some (Returned resetMsg)
   \<and> Update L m resetMsg =
       Returned
         (newModel\<lparr>ytDlpPath := ytDlpPath m, ffmpegPath := ffmpegPath m, width := width m,
            height := height m, state := stateInput, statusMsg := [],
            input := textinput_Update L resetMsg (input newModel)\<rparr>,
          [Blink, LibCmd])
   \<and> selectedYT newModel = zeroItem \<and> selectedMB newModel = zeroItem
   \<and> selectedTrack newModel = zeroItem \<and> tagInputs newModel = []
   \<and> error newModel = None \<and> lastFile newModel = []"
  using terminal_key [of m k L]
  by (simp add: Update_resetMsg reset_def complete_def) (simp add: newModel_def)

theorem reset_after_terminal_state_witness:
  "Update idleLib (newModel\<lparr>state := stateError, error := Some ''failed'', lastFile := ''x''\<rparr>)
       (KeyMsg (runeKey ''x''))
     = Returned (newModel\<lparr>state := stateError, error := Some ''failed'', lastFile := ''x''\<rparr>,
                 [ResetCmd])
   \<and> Update idleLib (newModel\<lparr>state := stateError, error := Some ''failed'', lastFile := ''x''\<rparr>)
        resetMsg
     = Returned (newModel\<lparr>state := stateInput, statusMsg := []\<rparr>, [Blink, LibCmd])"
  using reset_after_terminal_state
    [of "newModel\<lparr>state := stateError, error := Some ''failed'', lastFile := ''x''\<rparr>"
        "runeKey ''x''" idleLib]
  by (simp add: runeKey_def textinput_Update_def idleLib_def)

text \<open>
  Claim C6 as stated fails twice on the new model put into \<^verbatim>\<open>stateError\<close>: Ctrl+C is
  an input that quits and resets nothing, and the status after the reset is empty while
  the status of a new model is the dependency-check text.
\<close>

theorem reset_is_not_plain_reinitialisation:
  "Update idleLib (newModel\<lparr>state := stateError\<rparr>) (KeyMsg (plainKey KeyCtrlC))
     = Returned (newModel\<lparr>state := stateError\<rparr>, [Quit])
   \<and> Update idleLib (newModel\<lparr>state := stateError\<rparr>) resetMsg
     = Returned (newModel\<lparr>state := stateInput, statusMsg := []\<rparr>, [Blink, LibCmd])
   \<and> statusMsg (newModel\<lparr>state := stateInput, statusMsg := []\<rparr>) \<noteq> statusMsg newModel"
  by (simp add: Update_def plainKey_def Update_resetMsg reset_def textinput_Update_def idleLib_def
      handleMsg_def subUpdate_def)
     (simp add: newModel_def)

subsection \<open>The focus of the tag editor\<close>

lemma keyType_plain: "keyType (plainKey t) = t"
  by (simp add: plainKey_def)

lemma keyString_plain:
  "keyString (plainKey KeyDown) = ''down''" "keyString (plainKey KeyUp) = ''up''"
  "keyString (plainKey KeyEnter) = ''enter''"
  by (simp_all add: keyString_def plainKey_def)

lemma editTags_move:
  assumes "state m = stateEditTags" "length (tagInputs m) = 5" "0 \<le> focusIndex m" "focusIndex m < 5"
    "keyType k \<noteq> KeyEnter" "keyType k \<noteq> KeyEsc" "keyType k \<noteq> KeyCtrlC"
  shows "\<exists>m' cmds. Update L m (KeyMsg k) = Returned (m', cmds) \<and> state m' = stateEditTags
           \<and> length (tagInputs m') = 5
           \<and> focusIndex m' =
               (if keyString k = ''up'' then (focusIndex m - 1) mod 5
                else if keyString k = ''down'' then (focusIndex m + 1) mod 5
                else focusIndex m)"
proof -
  let ?f1 = "if keyString k = ''up'' then focusIndex m - 1
             else if keyString k = ''down'' then focusIndex m + 1 else focusIndex m"
  let ?f2 = "if ?f1 < 0 then 4 else if ?f1 \<ge> 5 then 0 else ?f1"
  have h: "handleKey L m k =
             Returned (m\<lparr>focusIndex := ?f2, tagInputs := focusOnly ?f2 (tagInputs m)\<rparr>,
                       (if 0 \<le> ?f2 \<and> ?f2 < 5 then [FocusCmd] else []))"
    using assms by (simp add: handleKey_def keyEditTags_def Let_def)
  have r: "0 \<le> ?f2 \<and> ?f2 < 5" using assms(3,4) by auto
  have v: "?f2 = (if keyString k = ''up'' then (focusIndex m - 1) mod 5
                else if keyString k = ''down'' then (focusIndex m + 1) mod 5
                else focusIndex m)"
  proof -
    have "focusIndex m = 0 \<or> focusIndex m = 1 \<or> focusIndex m = 2 \<or> focusIndex m = 3
            \<or> focusIndex m = 4"
      using assms(3,4) by arith
    then show ?thesis by (elim disjE) simp_all
  qed
  show ?thesis
    using assms(1,2,7) r
    unfolding v [symmetric]
    by (simp add: Update_def h subUpdate_def del: if_split cong: if_cong) 
qed

lemma editTags_enter:
  assumes "state m = stateEditTags" "length (tagInputs m) = 5" "0 \<le> focusIndex m" "focusIndex m < 4"
    "keyType k = KeyEnter"
  shows "\<exists>m' cmds. Update L m (KeyMsg k) = Returned (m', cmds) \<and> state m' = stateEditTags
           \<and> length (tagInputs m') = 5 \<and> focusIndex m' = focusIndex m + 1"
  using assms
  by (simp add: Update_def handleKey_def keyEditTags_def Let_def subUpdate_def)

lemma editTags_after:
  assumes "modelInv m" "state m = stateEditTags" "wellFormed e"
  shows "\<exists>m' cmds. Update L m e = Returned (m', cmds)
           \<and> (if state m' = stateEditTags then 0 \<le> focusIndex m' \<and> focusIndex m' < 5 else True)"
proof -
  from Update_EditTags_total [OF assms(1,2)]
  obtain m' cmds where u: "Update L m e = Returned (m', cmds)" by blast
  from Update_inv [OF assms(1,3) u] have "modelInv m'" .
  then have "if state m' = stateEditTags then 0 \<le> focusIndex m' \<and> focusIndex m' < 5 else True"
    by (simp add: modelInv_def)
  with u show ?thesis by blast
qed

text \<open>
  Claim C7. In every reachable configuration that is editing the tags there are five
  inputs and the focus index is in \<open>[0,5)\<close>; every message is handled without a panic,
  and if the tags are still edited afterwards the index is in range again. Down moves
  the index to \<open>(i + 1) mod 5\<close>, so from 4 to 0; up to \<open>(i - 1) mod 5\<close>, so from 0 to 4;
  Enter on a field that is not the last adds exactly one and stays in range.
\<close>

theorem focusIndex_stays_in_range:
  assumes "reachable L c" "state (cmodel c) = stateEditTags"
  shows "0 \<le> focusIndex (cmodel c) \<and> focusIndex (cmodel c) < 5
     \<and> length (tagInputs (cmodel c)) = 5
     \<and> (\<forall>e. wellFormed e \<longrightarrow>
           (\<exists>m' cmds. Update L (cmodel c) e = Returned (m', cmds)
              \<and> (if state m' = stateEditTags then 0 \<le> focusIndex m' \<and> focusIndex m' < 5
                  else True)))
     \<and> (\<exists>m' cmds. Update L (cmodel c) (KeyMsg (plainKey KeyDown)) = Returned (m', cmds)
           \<and> state m' = stateEditTags
           \<and> focusIndex m' = (focusIndex (cmodel c) + 1) mod 5
           \<and> (focusIndex (cmodel c) = 4 \<longrightarrow> focusIndex m' = 0))
     \<and> (\<exists>m' cmds. Update L (cmodel c) (KeyMsg (plainKey KeyUp)) = Returned (m', cmds)
           \<and> state m' = stateEditTags
           \<and> focusIndex m' = (focusIndex (cmodel c) - 1) mod 5
           \<and> (focusIndex (cmodel c) = 0 \<longrightarrow> focusIndex m' = 4))
     \<and> (focusIndex (cmodel c) < 4 \<longrightarrow>
          (\<exists>m' cmds. Update L (cmodel c) (KeyMsg (plainKey KeyEnter)) = Returned (m', cmds)
             \<and> state m' = stateEditTags
             \<and> focusIndex m' = focusIndex (cmodel c) + 1 \<and> focusIndex m' < 5))"
proof -
  let ?m = "cmodel c"
  have inv: "modelInv ?m" using assms(1) by (rule reachable_inv)
  with assms(2) have n: "length (tagInputs ?m) = 5" "0 \<le> focusIndex ?m" "focusIndex ?m < 5"
    by (simp_all add: modelInv_def)
  have a: "\<forall>e. wellFormed e \<longrightarrow>
           (\<exists>m' cmds. Update L ?m e = Returned (m', cmds)
              \<and> (if state m' = stateEditTags then 0 \<le> focusIndex m' \<and> focusIndex m' < 5
                  else True))"
    using editTags_after [OF inv assms(2)] by blast
  have d: "\<exists>m' cmds. Update L ?m (KeyMsg (plainKey KeyDown)) = Returned (m', cmds)
           \<and> state m' = stateEditTags
           \<and> focusIndex m' = (focusIndex ?m + 1) mod 5
           \<and> (focusIndex ?m = 4 \<longrightarrow> focusIndex m' = 0)"
  proof -
    from editTags_move [OF assms(2) n, of "plainKey KeyDown" L]
    obtain m' cmds where "Update L ?m (KeyMsg (plainKey KeyDown)) = Returned (m', cmds)"
      "state m' = stateEditTags" "focusIndex m' = (focusIndex ?m + 1) mod 5"
      by (auto simp: keyString_plain keyType_plain)
    then show ?thesis by (intro exI [of _ m'] exI [of _ cmds]) simp
  qed
  have u: "\<exists>m' cmds. Update L ?m (KeyMsg (plainKey KeyUp)) = Returned (m', cmds)
           \<and> state m' = stateEditTags
           \<and> focusIndex m' = (focusIndex ?m - 1) mod 5
           \<and> (focusIndex ?m = 0 \<longrightarrow> focusIndex m' = 4)"
  proof -
    from editTags_move [OF assms(2) n, of "plainKey KeyUp" L]
    obtain m' cmds where "Update L ?m (KeyMsg (plainKey KeyUp)) = Returned (m', cmds)"
      "state m' = stateEditTags" "focusIndex m' = (focusIndex ?m - 1) mod 5"
      by (auto simp: keyString_plain keyType_plain)
    then show ?thesis by (intro exI [of _ m'] exI [of _ cmds]) simp
  qed
  have e: "focusIndex ?m < 4 \<longrightarrow>
          (\<exists>m' cmds. Update L ?m (KeyMsg (plainKey KeyEnter)) = Returned (m', cmds)
             \<and> state m' = stateEditTags
             \<and> focusIndex m' = focusIndex ?m + 1 \<and> focusIndex m' < 5)"
  proof
    assume lt: "focusIndex ?m < 4"
    from editTags_enter [OF assms(2) n(1,2) lt, of "plainKey KeyEnter" L] lt
    show "\<exists>m' cmds. Update L ?m (KeyMsg (plainKey KeyEnter)) = Returned (m', cmds)
             \<and> state m' = stateEditTags
             \<and> focusIndex m' = focusIndex ?m + 1 \<and> focusIndex m' < 5"
      by (auto simp: keyType_plain)
  qed
  from n a d u e show ?thesis by blast
qed

text \<open>The two runs to the tag editor are possible, and end where they should.\<close>

lemma editTrace_runs: "isRunning (exec idleLib initConfig editTrace)"
  by code_simp

lemma editTrace_state:
  "state (cmodel (configOf (exec idleLib initConfig editTrace))) = stateEditTags"
  "focusIndex (cmodel (configOf (exec idleLib initConfig editTrace))) = 0"
  by code_simp+

lemma lastFieldTrace_runs: "isRunning (exec idleLib initConfig lastFieldTrace)"
  by code_simp

lemma lastFieldTrace_state:
  "state (cmodel (configOf (exec idleLib initConfig lastFieldTrace))) = stateEditTags"
  "focusIndex (cmodel (configOf (exec idleLib initConfig lastFieldTrace))) = 4"
  by code_simp+

theorem focusIndex_stays_in_range_witness:
  "state (cmodel (configOf (exec idleLib initConfig editTrace))) = stateEditTags
   \<and> focusIndex (cmodel (configOf (exec idleLib initConfig editTrace))) = 0
   \<and> (\<exists>m' cmds. Update idleLib (cmodel (configOf (exec idleLib initConfig editTrace)))
                    (KeyMsg (plainKey KeyUp)) = Returned (m', cmds) \<and> focusIndex m' = 4)
   \<and> state (cmodel (configOf (exec idleLib initConfig lastFieldTrace))) = stateEditTags
   \<and> focusIndex (cmodel (configOf (exec idleLib initConfig lastFieldTrace))) = 4
   \<and> (\<exists>m' cmds. Update idleLib (cmodel (configOf (exec idleLib initConfig lastFieldTrace)))
                    (KeyMsg (plainKey KeyDown)) = Returned (m', cmds) \<and> focusIndex m' = 0)"
  using focusIndex_stays_in_range [OF reachable_run [OF editTrace_runs] editTrace_state(1)]
    focusIndex_stays_in_range [OF reachable_run [OF lastFieldTrace_runs] lastFieldTrace_state(1)]
    editTrace_state lastFieldTrace_state
  by auto

subsection \<open>Finalizing the tags\<close>

lemma sdiv_nonneg: "0 \<le> (a::int) \<Longrightarrow> a sdiv 1000 = a div 1000"
  by (simp add: signed_divide_int_def sgn_if)

lemma finalize_tags:
  assumes "state m = stateEditTags" "length (tagInputs m) = 5" "focusIndex m = 4"
    "meta (selectedTrack m) = MetaTrack t" "keyType k = KeyEnter"
  shows "Update L m (KeyMsg k) =
           Returned
             (m\<lparr>state := stateDownloading, statusMsg := ''Fetching audio, cover and lyrics...''\<rparr>,
              [SpinnerTick,
               DownloadCmd (ytDlpPath m) (ffmpegPath m) (selectedYT m) (selectedMB m)
                 \<lparr>Title = tiValue (tagInputs m ! 0), Artist = tiValue (tagInputs m ! 1),
                  Album = tiValue (tagInputs m ! 2), Date = tiValue (tagInputs m ! 3),
                  TrackNumber = tiValue (tagInputs m ! 4),
                  AlbumArtist = tiValue (tagInputs m ! 1), Lyrics = [],
                  DurationSec = t_Length t sdiv 1000\<rparr>])"
  using assms
  by (simp add: Update_def handleKey_def keyEditTags_def Let_def subUpdate_def)

text \<open>
  Claim C9. Whenever the tags are edited in a reachable configuration and Enter
  confirms the last field (index 4), the selected track carries track metadata and the
  download is dispatched with a tag set whose album artist is its artist, the value of
  the second input, and whose duration is the track's length in milliseconds divided
  by 1000 towards zero: for a length that is not negative the remainder below one
  second is dropped, and 215500 ms gives 215.
\<close>

theorem finalized_tags:
  assumes "reachable L c" "state (cmodel c) = stateEditTags" "focusIndex (cmodel c) = 4"
    "keyType k = KeyEnter"
  shows "\<exists>t tags m'.
           meta (selectedTrack (cmodel c)) = MetaTrack t
           \<and> Update L (cmodel c) (KeyMsg k) =
               Returned
                 (m', [SpinnerTick,
                       DownloadCmd (ytDlpPath (cmodel c)) (ffmpegPath (cmodel c))
                         (selectedYT (cmodel c)) (selectedMB (cmodel c)) tags])
           \<and> state m' = stateDownloading
           \<and> Artist tags = tiValue (tagInputs (cmodel c) ! 1)
           \<and> AlbumArtist tags = Artist tags
           \<and> DurationSec tags = t_Length t sdiv 1000
           \<and> (0 \<le> t_Length t \<longrightarrow>
                DurationSec tags * 1000 \<le> t_Length t
                \<and> t_Length t < DurationSec tags * 1000 + 1000)
           \<and> (t_Length t = 215500 \<longrightarrow> DurationSec tags = 215)"
proof -
  let ?m = "cmodel c"
  have inv: "modelInv ?m" using assms(1) by (rule reachable_inv)
  with assms(2) have n: "length (tagInputs ?m) = 5" and tr: "isTrack (meta (selectedTrack ?m))"
    by (simp_all add: modelInv_def)
  from tr obtain t where t: "meta (selectedTrack ?m) = MetaTrack t"
    by (cases "meta (selectedTrack ?m)") (simp_all add: isTrack_def)
  let ?tags = "\<lparr>Title = tiValue (tagInputs ?m ! 0), Artist = tiValue (tagInputs ?m ! 1),
                  Album = tiValue (tagInputs ?m ! 2), Date = tiValue (tagInputs ?m ! 3),
                  TrackNumber = tiValue (tagInputs ?m ! 4),
                  AlbumArtist = tiValue (tagInputs ?m ! 1), Lyrics = [],
                  DurationSec = t_Length t sdiv 1000\<rparr>"
  have a: "0 \<le> t_Length t \<longrightarrow>
             (t_Length t sdiv 1000) * 1000 \<le> t_Length t
             \<and> t_Length t < (t_Length t sdiv 1000) * 1000 + 1000"
    by (auto simp: sdiv_nonneg)
  have b: "t_Length t = 215500 \<longrightarrow> t_Length t sdiv 1000 = 215"
    by (simp add: sdiv_nonneg)
  show ?thesis
    using finalize_tags [OF assms(2) n assms(3) t assms(4), of L] t a b
    by (intro exI [of _ t] exI [of _ ?tags]
          exI [of _ "?m\<lparr>state := stateDownloading,
                         statusMsg := ''Fetching audio, cover and lyrics...''\<rparr>"])
       simp
qed

lemma lastFieldTrace_result:
  "(case Update idleLib (cmodel (configOf (exec idleLib initConfig lastFieldTrace)))
           (KeyMsg (plainKey KeyEnter)) of
      Panicked \<Rightarrow> False
    | Returned (m', cmds) \<Rightarrow>
        cmds = [SpinnerTick,
                DownloadCmd ''/usr/bin/yt-dlp'' ''/usr/bin/ffmpeg'' (videoItem video1)
                  (releaseItem release1) tags1])"
  by code_simp

theorem finalized_tags_witness:
  "state (cmodel (configOf (exec idleLib initConfig lastFieldTrace))) = stateEditTags
   \<and> focusIndex (cmodel (configOf (exec idleLib initConfig lastFieldTrace))) = 4
   \<and> (\<exists>t tags m'.
         meta (selectedTrack (cmodel (configOf (exec idleLib initConfig lastFieldTrace))))
           = MetaTrack t
         \<and> Update idleLib (cmodel (configOf (exec idleLib initConfig lastFieldTrace)))
               (KeyMsg (plainKey KeyEnter)) =
             Returned
               (m', [SpinnerTick,
                     DownloadCmd ''/usr/bin/yt-dlp'' ''/usr/bin/ffmpeg'' (videoItem video1)
                       (releaseItem release1) tags])
         \<and> AlbumArtist tags = Artist tags
         \<and> DurationSec tags = t_Length t sdiv 1000
         \<and> tags = tags1 \<and> DurationSec tags1 = 215)"
proof -
  let ?m = "cmodel (configOf (exec idleLib initConfig lastFieldTrace))"
  from finalized_tags [OF reachable_run [OF lastFieldTrace_runs] lastFieldTrace_state,
      of "plainKey KeyEnter"]
  obtain t tags m' where
    t: "meta (selectedTrack ?m) = MetaTrack t" and
    u: "Update idleLib ?m (KeyMsg (plainKey KeyEnter)) =
          Returned (m', [SpinnerTick,
                         DownloadCmd (ytDlpPath ?m) (ffmpegPath ?m) (selectedYT ?m) (selectedMB ?m)
                           tags])" and
    r: "AlbumArtist tags = Artist tags" "DurationSec tags = t_Length t sdiv 1000"
    by (auto simp: keyType_plain)
  from lastFieldTrace_result u
  have e: "ytDlpPath ?m = ''/usr/bin/yt-dlp''" "ffmpegPath ?m = ''/usr/bin/ffmpeg''"
    "selectedYT ?m = videoItem video1" "selectedMB ?m = releaseItem release1" "tags = tags1"
    by simp_all
  have d: "DurationSec tags1 = 215" by (simp add: tags1_def)
  show ?thesis
    using lastFieldTrace_state t u r e d
    by (intro conjI exI [of _ t] exI [of _ tags] exI [of _ m']) simp_all
qed

subsection \<open>The payload of an item\<close>

lemma createTagInputs_Panicked:
  "(createTagInputs L m = Panicked) =
     (\<not> (isRelease (meta (selectedMB m)) \<and> isTrack (meta (selectedTrack m))))"
  by (simp add: createTagInputs_def isRelease_def isTrack_def split: meta.splits)

lemma editTags_key_total:
  assumes "reachable L c" "state (cmodel c) = stateEditTags"
  shows "Update L (cmodel c) (KeyMsg k) \<noteq> Panicked"
  using Update_EditTags_total [OF reachable_inv [OF assms(1)] assms(2), of L "KeyMsg k"]
  by auto

text \<open>
  Claim C3, as amended. The payload of an item is read by an unchecked type assertion:
  \<^verbatim>\<open>createTagInputs\<close> panics exactly when the selected release does not carry release
  metadata or the selected track does not carry track metadata; no kind is checked and
  no error is returned. In every reachable configuration that is editing the tags the
  selected track carries track metadata and the selected release release metadata, and
  no key makes \<^verbatim>\<open>Update\<close> panic: finalizing the tags never fails its assertion.
\<close>

theorem payload_access_is_unchecked:
  "(createTagInputs L m = Panicked) =
     (\<not> (isRelease (meta (selectedMB m)) \<and> isTrack (meta (selectedTrack m))))
   \<and> (reachable L c \<and> state (cmodel c) = stateEditTags \<longrightarrow>
        isTrack (meta (selectedTrack (cmodel c)))
        \<and> isRelease (meta (selectedMB (cmodel c)))
        \<and> (\<forall>k. Update L (cmodel c) (KeyMsg k) \<noteq> Panicked))"
proof -
  have "reachable L c \<and> state (cmodel c) = stateEditTags \<longrightarrow>
        isTrack (meta (selectedTrack (cmodel c)))
        \<and> isRelease (meta (selectedMB (cmodel c)))
        \<and> (\<forall>k. Update L (cmodel c) (KeyMsg k) \<noteq> Panicked)"
  proof
    assume a: "reachable L c \<and> state (cmodel c) = stateEditTags"
    then have "modelInv (cmodel c)" by (auto intro: reachable_inv)
    with a have "isTrack (meta (selectedTrack (cmodel c)))"
      "isRelease (meta (selectedMB (cmodel c)))"
      by (simp_all add: modelInv_def)
    with a editTags_key_total show "isTrack (meta (selectedTrack (cmodel c)))
        \<and> isRelease (meta (selectedMB (cmodel c)))
        \<and> (\<forall>k. Update L (cmodel c) (KeyMsg k) \<noteq> Panicked)"
      by blast
  qed
  with createTagInputs_Panicked show ?thesis by blast
qed

theorem payload_access_is_unchecked_witness:
  "createTagInputs idleLib (newModel\<lparr>selectedMB := releaseItem release1,
       selectedTrack := trackItem ''Artist A'' \<lparr>Format = ''CD'', Tracks = [track1]\<rparr> track1\<rparr>)
     \<noteq> Panicked
   \<and> createTagInputs idleLib (newModel\<lparr>selectedTrack :=
          trackItem ''Artist A'' \<lparr>Format = ''CD'', Tracks = [track1]\<rparr> track1\<rparr>) = Panicked
   \<and> state (cmodel (configOf (exec idleLib initConfig editTrace))) = stateEditTags
   \<and> isTrack (meta (selectedTrack (cmodel (configOf (exec idleLib initConfig editTrace)))))
   \<and> Update idleLib (cmodel (configOf (exec idleLib initConfig editTrace)))
        (KeyMsg (plainKey KeyEnter)) \<noteq> Panicked"
  using payload_access_is_unchecked
      [of idleLib "newModel\<lparr>selectedMB := releaseItem release1,
            selectedTrack := trackItem ''Artist A'' \<lparr>Format = ''CD'', Tracks = [track1]\<rparr> track1\<rparr>"
          "configOf (exec idleLib initConfig editTrace)"]
    payload_access_is_unchecked
      [of idleLib "newModel\<lparr>selectedTrack :=
            trackItem ''Artist A'' \<lparr>Format = ''CD'', Tracks = [track1]\<rparr> track1\<rparr>"
          "configOf (exec idleLib initConfig editTrace)"]
    reachable_run [OF editTrace_runs] editTrace_state(1)
  by (simp add: isRelease_def isTrack_def releaseItem_def trackItem_def newModel_def zeroItem_def)

text \<open>
  Claim C3 as stated fails: the run \<open>staleTrace\<close> is possible up to its last key, it
  ends in \<^verbatim>\<open>stateSelectTrack\<close> with a selected release whose payload is \<^verbatim>\<open>nil\<close>, and
  Enter then panics in \<^verbatim>\<open>createTagInputs\<close>. The access does not fail closed, and a
  reachable state does reach the failure.
\<close>

theorem stale_tracklist_panics:
  "exec idleLib initConfig staleTrace = Crashed
   \<and> isRunning (exec idleLib initConfig (butlast staleTrace))
   \<and> state (cmodel (configOf (exec idleLib initConfig (butlast staleTrace)))) = stateSelectTrack
   \<and> meta (selectedMB (cmodel (configOf (exec idleLib initConfig (butlast staleTrace))))) = MetaNil
   \<and> Update idleLib (cmodel (configOf (exec idleLib initConfig (butlast staleTrace))))
        (KeyMsg (plainKey KeyEnter)) = Panicked"
  by code_simp

section \<open>The claims about the asset fetcher\<close>

subsection \<open>The cover lookups\<close>

lemma Join_cover_nonempty: "Join d ''cover.jpg'' \<noteq> []"
  by (simp add: Join_def)

lemma fetchCover_requests:
  "snd (fetchCover env d r) =
     (if httpGet env (releaseCoverURL r) \<noteq> Some 200 \<and> rg_ID (r_ReleaseGroup r) \<noteq> []
      then [releaseCoverURL r, groupCoverURL r] else [releaseCoverURL r])"
  by (simp add: fetchCover_def Let_def Join_cover_nonempty)

lemma fetchCover_path:
  "fst (fetchCover env d r) =
     (if httpGet env (releaseCoverURL r) = Some 200
         \<or> (rg_ID (r_ReleaseGroup r) \<noteq> [] \<and> httpGet env (groupCoverURL r) = Some 200)
      then Join d ''cover.jpg'' else [])"
  by (simp add: fetchCover_def Let_def Join_cover_nonempty)

lemma fetchAssets_release:
  assumes "meta sMB = MetaRelease r"
  shows "fetchAssets env yt sYT sMB tags d =
     Returned
       \<lparr>audioPath = Join d ''audio.tmp'',
        coverPath = fst (fetchCover env d r),
        lyrics = getLyrics env (Artist tags) (Title tags) (Album tags) (DurationSec tags),
        dlErr = (case runProc env yt [''-f'', ''bestaudio'', ''-o'', Join d ''audio.tmp'', url sYT] of
                   Some out \<Rightarrow> Some (''Downloading the audio failed:'' @ [CHR 0x0A] @ out)
                 | None \<Rightarrow> None),
        requests = snd (fetchCover env d r)\<rparr>"
  using assms by (simp add: fetchAssets_def)

lemma decodeReleaseGroup_empty:
  "decodeReleaseGroup obj = \<lparr>rg_ID = [], rg_PrimaryType = []\<rparr>"
  by (simp add: decodeReleaseGroup_def decodeField_def usableFields_def releaseGroupFields_def)

text \<open>
  Claim C4 against the code. The claim has the release-group endpoint asked when the
  release endpoint answers that it has no cover. The code never asks it: decoding leaves
  the id of every release group empty, whatever MusicBrainz sent, so the guard of the
  second lookup is false for every release the program holds. For the release \<^verbatim>\<open>r1\<close>,
  sent with the release group \<^verbatim>\<open>g1\<close>, with no cover of the release (404) and a cover of
  the release group (200), only the release endpoint is asked, the cover path is empty,
  and the download goes on without a cover.
\<close>

theorem fallback_lookup_is_dead:
  "rg_ID (decodeReleaseGroup obj) = []
   \<and> fetchCover env d (r\<lparr>r_ReleaseGroup := decodeReleaseGroup obj\<rparr>) =
       ((if httpGet env (releaseCoverURL r) = Some 200 then Join d ''cover.jpg'' else []),
        [releaseCoverURL r])
   \<and> group1 ''id'' = Some (JString ''g1'')
   \<and> httpGet notFoundEnv (releaseCoverURL release1) = Some 404
   \<and> httpGet notFoundEnv ''https://coverartarchive.org/release-group/g1/front-500'' = Some 200
   \<and> fetchCover notFoundEnv ''tmp'' release1 = ([], [releaseCoverURL release1])
   \<and> downloadCmd notFoundEnv ''yt-dlp'' ''ffmpeg'' (videoItem video1) (releaseItem release1) tags1
       = Returned (downloadFinishedMsg ''GoMusicDownloader/downloads/Artist A - Song A.flac'' None)"
proof -
  have g: "rg_ID (decodeReleaseGroup obj) = []" for obj
    by (simp add: decodeReleaseGroup_empty)
  have u: "releaseCoverURL (r\<lparr>r_ReleaseGroup := x\<rparr>) = releaseCoverURL r" for r x
    by (simp add: releaseCoverURL_def)
  have c: "fetchCover env d (r\<lparr>r_ReleaseGroup := decodeReleaseGroup obj\<rparr>) =
       ((if httpGet env (releaseCoverURL r) = Some 200 then Join d ''cover.jpg'' else []),
        [releaseCoverURL r])"
    by (simp add: prod_eq_iff fetchCover_requests fetchCover_path g u)
  have e: "group1 ''id'' = Some (JString ''g1'')"
    by (simp add: group1_def)
  have h: "httpGet notFoundEnv (releaseCoverURL release1) = Some 404"
    "httpGet notFoundEnv ''https://coverartarchive.org/release-group/g1/front-500'' = Some 200"
    by (simp_all add: notFoundEnv_def releaseCoverURL_def release1_def)
  have f: "fetchCover notFoundEnv ''tmp'' release1 = ([], [releaseCoverURL release1])"
    by (simp add: prod_eq_iff fetchCover_requests fetchCover_path h)
       (simp add: release1_def decodeReleaseGroup_empty)
  have k: "downloadCmd notFoundEnv ''yt-dlp'' ''ffmpeg'' (videoItem video1) (releaseItem release1)
             tags1
           = Returned (downloadFinishedMsg ''GoMusicDownloader/downloads/Artist A - Song A.flac''
                         None)"
    by code_simp
  from g c e h f k show ?thesis by simp
qed

subsection \<open>Which failures are fatal\<close>

lemma ffmpegArgs_bare:
  "ffmpegArgs tags \<lparr>audioPath = a, coverPath = [], lyrics = [], dlErr = e, requests = rq\<rparr> p =
     [''-y'', ''-i'', a, ''-c:a'', ''flac'',
      ''-metadata'', ''title='' @ Title tags,
      ''-metadata'', ''artist='' @ Artist tags,
      ''-metadata'', ''album_artist='' @ AlbumArtist tags,
      ''-metadata'', ''album='' @ Album tags,
      ''-metadata'', ''track='' @ TrackNumber tags,
      ''-metadata'', ''date='' @ Date tags, p]"
  by (simp add: ffmpegArgs_def)

text \<open>
  Claim C2. Take a download whose scratch directory was made and whose selected release
  carries release metadata. If the audio download fails, the message is that failure,
  whatever the cover and lyrics lookups answer. If the audio download succeeds while
  neither cover lookup gives a cover and the lyrics lookup gives nothing, the three
  goroutines end with no error, an empty cover path and empty lyrics; ffmpeg is then run
  with neither a cover input nor a lyrics tag, and the message is a success exactly
  when that run succeeds.
\<close>

theorem audio_failure_dominates:
  assumes "mkdirTemp env (Join mainDir tempDir) ''gomusicdl_*'' = Inr d"
    and "meta sMB = MetaRelease r"
  shows
    "(runProc env yt [''-f'', ''bestaudio'', ''-o'', Join d ''audio.tmp'', url sYT] = Some out \<longrightarrow>
        downloadCmd env yt ff sYT sMB tags =
          Returned (downloadFinishedMsg []
                      (Some (''Downloading the audio failed:'' @ [CHR 0x0A] @ out))))
     \<and> (runProc env yt [''-f'', ''bestaudio'', ''-o'', Join d ''audio.tmp'', url sYT] = None
         \<and> httpGet env (releaseCoverURL r) \<noteq> Some 200
         \<and> httpGet env (groupCoverURL r) \<noteq> Some 200
         \<and> getLyrics env (Artist tags) (Title tags) (Album tags) (DurationSec tags) = [] \<longrightarrow>
           (\<exists>fo. fetchAssets env yt sYT sMB tags d = Returned fo
              \<and> dlErr fo = None \<and> audioPath fo = Join d ''audio.tmp''
              \<and> coverPath fo = [] \<and> lyrics fo = [])
           \<and> downloadCmd env yt ff sYT sMB tags =
               Returned
                 (case runProc env ff
                         [''-y'', ''-i'', Join d ''audio.tmp'', ''-c:a'', ''flac'',
                          ''-metadata'', ''title='' @ Title tags,
                          ''-metadata'', ''artist='' @ Artist tags,
                          ''-metadata'', ''album_artist='' @ AlbumArtist tags,
                          ''-metadata'', ''album='' @ Album tags,
                          ''-metadata'', ''track='' @ TrackNumber tags,
                          ''-metadata'', ''date='' @ Date tags,
                          Join (Join mainDir downloadsDir)
                            (sanitizeFilename (Artist tags @ '' - '' @ Title tags @ ''.flac''))] of
                    Some out \<Rightarrow>
                      downloadFinishedMsg []
                        (Some (''Converting with ffmpeg failed:'' @ [CHR 0x0A] @ out))
                  | None \<Rightarrow>
                      downloadFinishedMsg
                        (Join (Join mainDir downloadsDir)
                           (sanitizeFilename (Artist tags @ '' - '' @ Title tags @ ''.flac'')))
                        None))"
proof (intro conjI impI)
  assume "runProc env yt [''-f'', ''bestaudio'', ''-o'', Join d ''audio.tmp'', url sYT] = Some out"
  then show "downloadCmd env yt ff sYT sMB tags =
          Returned (downloadFinishedMsg []
                      (Some (''Downloading the audio failed:'' @ [CHR 0x0A] @ out)))"
    using assms by (simp add: downloadCmd_def fetchAssets_release mergeAssets_def)
next
  assume h: "runProc env yt [''-f'', ''bestaudio'', ''-o'', Join d ''audio.tmp'', url sYT] = None
         \<and> httpGet env (releaseCoverURL r) \<noteq> Some 200
         \<and> httpGet env (groupCoverURL r) \<noteq> Some 200
         \<and> getLyrics env (Artist tags) (Title tags) (Album tags) (DurationSec tags) = []"
  then have c: "fst (fetchCover env d r) = []" by (simp add: fetchCover_path)
  from h c assms(2) show "\<exists>fo. fetchAssets env yt sYT sMB tags d = Returned fo
              \<and> dlErr fo = None \<and> audioPath fo = Join d ''audio.tmp''
              \<and> coverPath fo = [] \<and> lyrics fo = []"
    by (simp add: fetchAssets_release)
  from h c assms show "downloadCmd env yt ff sYT sMB tags =
               Returned
                 (case runProc env ff
                         [''-y'', ''-i'', Join d ''audio.tmp'', ''-c:a'', ''flac'',
                          ''-metadata'', ''title='' @ Title tags,
                          ''-metadata'', ''artist='' @ Artist tags,
                          ''-metadata'', ''album_artist='' @ AlbumArtist tags,
                          ''-metadata'', ''album='' @ Album tags,
                          ''-metadata'', ''track='' @ TrackNumber tags,
                          ''-metadata'', ''date='' @ Date tags,
                          Join (Join mainDir downloadsDir)
                            (sanitizeFilename (Artist tags @ '' - '' @ Title tags @ ''.flac''))] of
                    Some out \<Rightarrow>
                      downloadFinishedMsg []
                        (Some (''Converting with ffmpeg failed:'' @ [CHR 0x0A] @ out))
                  | None \<Rightarrow>
                      downloadFinishedMsg
                        (Join (Join mainDir downloadsDir)
                           (sanitizeFilename (Artist tags @ '' - '' @ Title tags @ ''.flac'')))
                        None)"
    by (simp add: downloadCmd_def fetchAssets_release mergeAssets_def ffmpegArgs_bare Let_def
        split: option.splits)
qed

lemma getLyrics_bareEnv: "getLyrics bareEnv a t al n = []"
  by (simp add: getLyrics_def bareEnv_def)

theorem audio_failure_dominates_witness:
  "downloadCmd noAudioEnv ''yt-dlp'' ''ffmpeg'' (videoItem video1) (releaseItem release1) tags1
     = Returned (downloadFinishedMsg []
                   (Some (''Downloading the audio failed:'' @ [CHR 0x0A] @ ''ERROR: unavailable'')))
   \<and> downloadCmd bareEnv ''yt-dlp'' ''ffmpeg'' (videoItem video1) (releaseItem release1) tags1
     = Returned (downloadFinishedMsg ''GoMusicDownloader/downloads/Artist A - Song A.flac'' None)"
proof -
  have m: "meta (releaseItem release1) = MetaRelease release1"
    by (simp add: releaseItem_def)
  have d1: "mkdirTemp noAudioEnv (Join mainDir tempDir) ''gomusicdl_*''
              = Inr ''GoMusicDownloader/temp/gomusicdl_1''"
    and d2: "mkdirTemp bareEnv (Join mainDir tempDir) ''gomusicdl_*''
              = Inr ''GoMusicDownloader/temp/gomusicdl_1''"
    by (simp_all add: noAudioEnv_def bareEnv_def)
  have a1: "runProc noAudioEnv ''yt-dlp''
              [''-f'', ''bestaudio'', ''-o'', Join ''GoMusicDownloader/temp/gomusicdl_1'' ''audio.tmp'',
               url (videoItem video1)] = Some ''ERROR: unavailable''"
    by (simp add: noAudioEnv_def)
  have a2: "runProc bareEnv p args = None" "httpGet bareEnv u = None" for p args u
    by (simp_all add: bareEnv_def)
  have f: "Join (Join mainDir downloadsDir)
             (sanitizeFilename (Artist tags1 @ '' - '' @ Title tags1 @ ''.flac''))
           = ''GoMusicDownloader/downloads/Artist A - Song A.flac''"
    by (simp add: Join_def mainDir_def downloadsDir_def tags1_def sanitizeFilename_def
        replaceByte_cases unsafeChars_def)
  show ?thesis
    using audio_failure_dominates [OF d1 m, where yt = "''yt-dlp''" and sYT = "videoItem video1"
        and out = "''ERROR: unavailable''" and ff = "''ffmpeg''" and tags = tags1]
      audio_failure_dominates [OF d2 m, where yt = "''yt-dlp''" and sYT = "videoItem video1"
        and out = "''x''" and ff = "''ffmpeg''" and tags = tags1]
      a1 a2 f getLyrics_bareEnv
    by simp
qed

subsection \<open>The lyrics lookup reads the synced lyrics\<close>

lemma getLyrics_cases:
  "getLyrics env a t al n =
     (case lrclib env [(''track_name'', t), (''artist_name'', a), (''album_name'', al),
                       (''duration'', Sprintf_d n)] of
        RequestFailed \<Rightarrow> []
      | Reply status body \<Rightarrow>
          (case body of
             None \<Rightarrow> []
           | Some obj \<Rightarrow>
               if status = 200 then
                 (case obj ''syncedLyrics'' of Some (JString s) \<Rightarrow> s | _ \<Rightarrow> [])
               else []))"
  by (simp add: getLyrics_def decodeLrclibResponse_def
      split: lrclibReply.splits option.splits jvalue.splits)

text \<open>
  Claim C5 against the code. \<^verbatim>\<open>getLyrics\<close> returns what the answer holds under
  \<^verbatim>\<open>syncedLyrics\<close>, not its plain lyrics: an answer with plain lyrics and no synced
  lyrics gives the empty string, and one with both gives the synced text.
\<close>

theorem getLyrics_reads_syncedLyrics:
  "plainLyricsOf lrclibObject = ''la la la''
   \<and> getLyrics plainOnlyEnv ''Artist A'' ''Song A'' ''Album A'' 215 = []
   \<and> plainLyricsOf lrclibObject2 = ''la la la''
   \<and> getLyrics bothLyricsEnv ''Artist A'' ''Song A'' ''Album A'' 215 = ''[00:01.00] la la la''"
  by (simp add: getLyrics_cases plainLyricsOf_def lrclibObject_def lrclibObject2_def
      plainOnlyEnv_def bothLyricsEnv_def bareEnv_def)

end
